theory Spec2Isabelle
  imports Complex_Main "HOL-Library.AList" "HOL-Library.Multiset"
begin

section \<open>Data model\<close>

text \<open>
  The enumerations of the Prisma client. \<open>ReadingStage\<close> is declared in the shared
  package; its members are listed in the order of that declaration, which is also the order
  of \<open>allStages\<close> in the analytics service. The members of \<open>ResearchDomain\<close> are
  those of \<open>allDomains\<close> there, in that order.
\<close>

datatype ReadingStage =
  ABSTRACT_READ | INTRODUCTION_DONE | METHODOLOGY_DONE | RESULTS_ANALYZED | FULLY_READ
  | NOTES_COMPLETED

datatype ResearchDomain =
  COMPUTER_SCIENCE | BIOLOGY | PHYSICS | CHEMISTRY | MATHEMATICS | SOCIAL_SCIENCES

text \<open>
  Modelled from the spec: the declaration of the enumeration \<open>ImpactScore\<close> is missing from
  the sources; its members are the four values the specification gives for \<open>impactScore\<close>
  (High Impact, Medium Impact, Low Impact, Unknown). The services only compare and copy
  these values.
\<close>

datatype ImpactScore = HIGH_IMPACT | MEDIUM_IMPACT | LOW_IMPACT | UNKNOWN

text \<open>
  A row of the \<open>paper\<close> table is a \<open>Paper\<close>; the listing selects the fields of
  \<open>PaperItem\<close> from it, which is why the row type extends the item type. Instants
  (\<open>dateAdded\<close>) are ECMAScript time values: milliseconds since the epoch, as an integer.
  The primary key is called \<open>paperId\<close> because \<open>id\<close> is the identity function of HOL.
\<close>

record PaperItem =
  paperId :: string
  title :: string
  firstAuthor :: string
  researchDomain :: ResearchDomain
  readingStage :: ReadingStage
  citationCount :: int
  impactScore :: ImpactScore
  dateAdded :: int

record Paper = PaperItem +
  isArchived :: bool
  userKeyId :: string

text \<open>The errors the services throw. \<open>STORE_ERROR\<close> stands for an error raised by the
  record store itself (a rejected query argument, a violated key).\<close>

datatype ServiceError = DUPLICATE_PAPER | NOT_FOUND | STORE_ERROR

text \<open>
  A JavaScript number as far as pagination needs it: an integer, \<open>NaN\<close> or an
  infinity (\<open>parseInt\<close> yields nothing else).
\<close>

datatype jsnum = NaN | Num int | PosInfinity | NegInfinity

fun jsSub :: "jsnum \<Rightarrow> jsnum \<Rightarrow> jsnum" where
  "jsSub (Num a) (Num b) = Num (a - b)"
| "jsSub PosInfinity (Num b) = PosInfinity"
| "jsSub NegInfinity (Num b) = NegInfinity"
| "jsSub (Num a) PosInfinity = NegInfinity"
| "jsSub (Num a) NegInfinity = PosInfinity"
| "jsSub PosInfinity NegInfinity = PosInfinity"
| "jsSub NegInfinity PosInfinity = NegInfinity"
| "jsSub _ _ = NaN"

fun jsMul :: "jsnum \<Rightarrow> jsnum \<Rightarrow> jsnum" where
  "jsMul (Num a) (Num b) = Num (a * b)"
| "jsMul PosInfinity (Num b) =
     (if b = 0 then NaN else if 0 < b then PosInfinity else NegInfinity)"
| "jsMul NegInfinity (Num b) =
     (if b = 0 then NaN else if 0 < b then NegInfinity else PosInfinity)"
| "jsMul (Num a) PosInfinity =
     (if a = 0 then NaN else if 0 < a then PosInfinity else NegInfinity)"
| "jsMul (Num a) NegInfinity =
     (if a = 0 then NaN else if 0 < a then NegInfinity else PosInfinity)"
| "jsMul PosInfinity PosInfinity = PosInfinity"
| "jsMul NegInfinity NegInfinity = PosInfinity"
| "jsMul PosInfinity NegInfinity = NegInfinity"
| "jsMul NegInfinity PosInfinity = NegInfinity"
| "jsMul _ _ = NaN"

section \<open>The \<open>Date\<close> object\<close>

text \<open>
  The abstract operations of ECMAScript on time values. Integer division rounds down, as
  \<open>floor\<close> does in the standard.
\<close>

definition msPerDay :: int where
  "msPerDay = 86400000"

definition Day :: "int \<Rightarrow> int" where
  "Day t = t div msPerDay"

definition TimeWithinDay :: "int \<Rightarrow> int" where
  "TimeWithinDay t = t mod msPerDay"

definition DayFromYear :: "int \<Rightarrow> int" where
  "DayFromYear y =
     365 * (y - 1970) + (y - 1969) div 4 - (y - 1901) div 100 + (y - 1601) div 400"

definition InLeapYear :: "int \<Rightarrow> bool" where
  "InLeapYear y = (y mod 4 = 0 \<and> (y mod 100 \<noteq> 0 \<or> y mod 400 = 0))"

text \<open>The year of a day number, by 400-, 100-, 4- and 1-year cycles counted from
  1 January 2001; \<open>YearFromDay_bounds\<close> below shows that it is the year that
  ECMAScript defines.\<close>

definition YearFromDay :: "int \<Rightarrow> int" where
  "YearFromDay d =
     (let n = d - DayFromYear 2001;
          n400 = n div 146097;
          r400 = n mod 146097;
          n100 = min (r400 div 36524) 3;
          r100 = r400 - n100 * 36524;
          n4 = r100 div 1461;
          r4 = r100 mod 1461;
          n1 = min (r4 div 365) 3
      in 2001 + 400 * n400 + 100 * n100 + 4 * n4 + n1)"

definition YearFromTime :: "int \<Rightarrow> int" where
  "YearFromTime t = YearFromDay (Day t)"

definition DayWithinYear :: "int \<Rightarrow> int" where
  "DayWithinYear t = Day t - DayFromYear (YearFromTime t)"

text \<open>The day within the year on which month \<open>m\<close> (0 to 11) starts.\<close>

definition monthStart :: "int \<Rightarrow> bool \<Rightarrow> int" where
  "monthStart m leap =
     (let l = (if leap then 1 else 0) in
      if m = 0 then 0 else if m = 1 then 31 else if m = 2 then 59 + l
      else if m = 3 then 90 + l else if m = 4 then 120 + l else if m = 5 then 151 + l
      else if m = 6 then 181 + l else if m = 7 then 212 + l else if m = 8 then 243 + l
      else if m = 9 then 273 + l else if m = 10 then 304 + l else 334 + l)"

definition MonthFromTime :: "int \<Rightarrow> int" where
  "MonthFromTime t =
     (let d = DayWithinYear t; leap = InLeapYear (YearFromTime t) in
      if d < monthStart 1 leap then 0 else if d < monthStart 2 leap then 1
      else if d < monthStart 3 leap then 2 else if d < monthStart 4 leap then 3
      else if d < monthStart 5 leap then 4 else if d < monthStart 6 leap then 5
      else if d < monthStart 7 leap then 6 else if d < monthStart 8 leap then 7
      else if d < monthStart 9 leap then 8 else if d < monthStart 10 leap then 9
      else if d < monthStart 11 leap then 10 else 11)"

definition DateFromTime :: "int \<Rightarrow> int" where
  "DateFromTime t =
     DayWithinYear t - monthStart (MonthFromTime t) (InLeapYear (YearFromTime t)) + 1"

definition WeekDay :: "int \<Rightarrow> int" where
  "WeekDay t = (Day t + 4) mod 7"

definition MakeTime :: "int \<Rightarrow> int \<Rightarrow> int \<Rightarrow> int \<Rightarrow> int" where
  "MakeTime h m s ms = h * 3600000 + m * 60000 + s * 1000 + ms"

definition MakeDay :: "int \<Rightarrow> int \<Rightarrow> int \<Rightarrow> int" where
  "MakeDay year month date =
     (let ym = year + month div 12; mn = month mod 12
      in DayFromYear ym + monthStart mn (InLeapYear ym) + date - 1)"

definition MakeDate :: "int \<Rightarrow> int \<Rightarrow> int" where
  "MakeDate day time = day * msPerDay + time"

text \<open>
  The time zone of the host: the offset from UTC, in milliseconds, that is in force before
  the first transition, and the transitions in ascending order, each with its instant and
  the offset in force from that instant on.
\<close>

record TimeZone =
  baseOffset :: int
  transitions :: "(int \<times> int) list"

text \<open>The offset in force at an instant.\<close>

fun offsetAt :: "int \<Rightarrow> (int \<times> int) list \<Rightarrow> int \<Rightarrow> int" where
  "offsetAt cur [] t = cur"
| "offsetAt cur ((instant, offs) # ts) t =
     (if t < instant then cur else offsetAt offs ts t)"

text \<open>
  The offset under which a local time value is read. A local time that occurs twice, where
  the offset decreases, is read as its first occurrence; a local time that is skipped,
  where the offset increases, is read with the offset before the transition.
\<close>

fun offsetOfLocal :: "int \<Rightarrow> (int \<times> int) list \<Rightarrow> int \<Rightarrow> int" where
  "offsetOfLocal cur [] t = cur"
| "offsetOfLocal cur ((instant, offs) # ts) t =
     (if t < instant + max cur offs then cur else offsetOfLocal offs ts t)"

definition LocalTime :: "TimeZone \<Rightarrow> int \<Rightarrow> int" where
  "LocalTime tz t = t + offsetAt (baseOffset tz) (transitions tz) t"

definition UTC :: "TimeZone \<Rightarrow> int \<Rightarrow> int" where
  "UTC tz t = t - offsetOfLocal (baseOffset tz) (transitions tz) t"

text \<open>The methods of \<open>Date\<close> that the services call; the receiver is its time value.\<close>

definition getDay :: "TimeZone \<Rightarrow> int \<Rightarrow> int" where
  "getDay tz t = WeekDay (LocalTime tz t)"

definition getDate :: "TimeZone \<Rightarrow> int \<Rightarrow> int" where
  "getDate tz t = DateFromTime (LocalTime tz t)"

definition getMonth :: "TimeZone \<Rightarrow> int \<Rightarrow> int" where
  "getMonth tz t = MonthFromTime (LocalTime tz t)"

definition getFullYear :: "TimeZone \<Rightarrow> int \<Rightarrow> int" where
  "getFullYear tz t = YearFromTime (LocalTime tz t)"

definition setDate :: "TimeZone \<Rightarrow> int \<Rightarrow> int \<Rightarrow> int" where
  "setDate tz t dt =
     (let lt = LocalTime tz t
      in UTC tz (MakeDate (MakeDay (YearFromTime lt) (MonthFromTime lt) dt) (TimeWithinDay lt)))"

definition setMonth :: "TimeZone \<Rightarrow> int \<Rightarrow> int \<Rightarrow> int" where
  "setMonth tz t m =
     (let lt = LocalTime tz t
      in UTC tz (MakeDate (MakeDay (YearFromTime lt) m (DateFromTime lt)) (TimeWithinDay lt)))"

text \<open>\<open>setHours(0, 0, 0, 0)\<close>.\<close>

definition setHours :: "TimeZone \<Rightarrow> int \<Rightarrow> int \<Rightarrow> int \<Rightarrow> int \<Rightarrow> int \<Rightarrow> int" where
  "setHours tz t h m s ms = UTC tz (MakeDate (Day (LocalTime tz t)) (MakeTime h m s ms))"

text \<open>\<open>new Date(year, month, 1)\<close>; a year from 0 to 99 stands for 1900 + year.\<close>

definition newDate :: "TimeZone \<Rightarrow> int \<Rightarrow> int \<Rightarrow> int \<Rightarrow> int" where
  "newDate tz year month date =
     (let yr = (if 0 \<le> year \<and> year \<le> 99 then 1900 + year else year)
      in UTC tz (MakeDate (MakeDay yr month date) (MakeTime 0 0 0 0)))"

section \<open>Time window\<close>

text \<open>
  \<open>getDateRangeStart\<close>, which the paper service and the analytics service both declare
  with the same text. \<open>new Date()\<close> is the parameter \<open>now\<close>; \<open>null\<close> is \<open>None\<close>.
\<close>

definition getDateRangeStart :: "TimeZone \<Rightarrow> int \<Rightarrow> string \<Rightarrow> int option" where
  "getDateRangeStart tz now dateRange =
     (if dateRange = ''THIS_WEEK'' then
        (let startOfWeek = now;
             dayOfWeek = getDay tz startOfWeek;
             diff = (if dayOfWeek = 0 then - 6 else 1 - dayOfWeek);
             startOfWeek = setDate tz startOfWeek (getDate tz startOfWeek + diff);
             startOfWeek = setHours tz startOfWeek 0 0 0 0
         in Some startOfWeek)
      else if dateRange = ''THIS_MONTH'' then
        (let startOfMonth = newDate tz (getFullYear tz now) (getMonth tz now) 1;
             startOfMonth = setHours tz startOfMonth 0 0 0 0
         in Some startOfMonth)
      else if dateRange = ''LAST_3_MONTHS'' then
        (let threeMonthsAgo = now;
             threeMonthsAgo = setMonth tz threeMonthsAgo (getMonth tz threeMonthsAgo - 3);
             threeMonthsAgo = setHours tz threeMonthsAgo 0 0 0 0
         in Some threeMonthsAgo)
      else if dateRange = ''ALL_TIME'' then None
      else None)"

section \<open>Filters and the scoped query\<close>

text \<open>
  \<open>PaperFilters\<close> and \<open>AnalyticsFilters\<close> have the same four optional fields. The services
  never inspect the members of the three lists, and the controllers fill them with whatever
  strings the request carries (the cast to the enumeration is unchecked), so the element
  types are parameters: the enumerations for a query that reaches the store, \<open>string\<close>
  for what the controllers hand over. \<open>dateRange\<close> is a string, as the \<open>default\<close> branch
  of \<open>getDateRangeStart\<close> expects.
\<close>

record ('s, 'd, 'i) PaperFilters =
  readingStages :: "'s list option"
  researchDomains :: "'d list option"
  impactScores :: "'i list option"
  dateRange :: "string option"

text \<open>
  The \<open>where\<close> object handed to Prisma: the two fixed conjuncts, an optional \<open>in\<close> list
  for each of three columns, and an optional \<open>gte\<close> bound on \<open>dateAdded\<close>.
\<close>

record ('s, 'd, 'i) PaperWhere =
  where_userKeyId :: string
  where_isArchived :: bool
  where_readingStage_in :: "'s list option"
  where_researchDomain_in :: "'d list option"
  where_impactScore_in :: "'i list option"
  where_dateAdded_gte :: "int option"

type_synonym StoreWhere = "(ReadingStage, ResearchDomain, ImpactScore) PaperWhere"

text \<open>The \<open>where\<close> object built in \<open>getPapers\<close> of the paper service.\<close>

definition getPapersWhere ::
  "TimeZone \<Rightarrow> int \<Rightarrow> string \<Rightarrow> ('s, 'd, 'i) PaperFilters \<Rightarrow> ('s, 'd, 'i) PaperWhere" where
  "getPapersWhere tz now ownerId filters =
     (let w = \<lparr>where_userKeyId = ownerId, where_isArchived = False,
                where_readingStage_in = None, where_researchDomain_in = None,
                where_impactScore_in = None, where_dateAdded_gte = None\<rparr>;
          w = (case readingStages filters of
                 Some xs \<Rightarrow> if length xs > 0 then w\<lparr>where_readingStage_in := Some xs\<rparr> else w
               | None \<Rightarrow> w);
          w = (case researchDomains filters of
                 Some xs \<Rightarrow> if length xs > 0 then w\<lparr>where_researchDomain_in := Some xs\<rparr> else w
               | None \<Rightarrow> w);
          w = (case impactScores filters of
                 Some xs \<Rightarrow> if length xs > 0 then w\<lparr>where_impactScore_in := Some xs\<rparr> else w
               | None \<Rightarrow> w);
          w = (case dateRange filters of
                 Some r \<Rightarrow>
                   if r \<noteq> [] then
                     (case getDateRangeStart tz now r of
                        Some startDate \<Rightarrow> w\<lparr>where_dateAdded_gte := Some startDate\<rparr>
                      | None \<Rightarrow> w)
                   else w
               | None \<Rightarrow> w)
      in w)"

text \<open>\<open>buildWhereClause\<close> of the analytics service.\<close>

definition buildWhereClause ::
  "TimeZone \<Rightarrow> int \<Rightarrow> string \<Rightarrow> ('s, 'd, 'i) PaperFilters \<Rightarrow> ('s, 'd, 'i) PaperWhere" where
  "buildWhereClause tz now ownerId filters =
     (let w = \<lparr>where_userKeyId = ownerId, where_isArchived = False,
                where_readingStage_in = None, where_researchDomain_in = None,
                where_impactScore_in = None, where_dateAdded_gte = None\<rparr>;
          w = (case readingStages filters of
                 None \<Rightarrow> w
               | Some xs \<Rightarrow> if length xs > 0 then w\<lparr>where_readingStage_in := Some xs\<rparr> else w);
          w = (case researchDomains filters of
                 None \<Rightarrow> w
               | Some xs \<Rightarrow> if length xs > 0 then w\<lparr>where_researchDomain_in := Some xs\<rparr> else w);
          w = (case impactScores filters of
                 None \<Rightarrow> w
               | Some xs \<Rightarrow> if length xs > 0 then w\<lparr>where_impactScore_in := Some xs\<rparr> else w);
          w = (case dateRange filters of
                 None \<Rightarrow> w
               | Some r \<Rightarrow>
                   if r = [] then w
                   else (case getDateRangeStart tz now r of
                           None \<Rightarrow> w
                         | Some startDate \<Rightarrow> w\<lparr>where_dateAdded_gte := Some startDate\<rparr>))
      in w)"

section \<open>The record store\<close>

text \<open>
  The table is the list of its rows, in storage order. A row satisfies a \<open>where\<close> object
  when it satisfies every conjunct that is present.
\<close>

definition inList :: "'a list option \<Rightarrow> 'a \<Rightarrow> bool" where
  "inList c x = (case c of None \<Rightarrow> True | Some xs \<Rightarrow> x \<in> set xs)"

definition gteBound :: "int option \<Rightarrow> int \<Rightarrow> bool" where
  "gteBound c x = (case c of None \<Rightarrow> True | Some b \<Rightarrow> b \<le> x)"

definition matchesWhere :: "StoreWhere \<Rightarrow> Paper \<Rightarrow> bool" where
  "matchesWhere w p =
     (userKeyId p = where_userKeyId w \<and> isArchived p = where_isArchived w
      \<and> inList (where_readingStage_in w) (readingStage p)
      \<and> inList (where_researchDomain_in w) (researchDomain p)
      \<and> inList (where_impactScore_in w) (impactScore p)
      \<and> gteBound (where_dateAdded_gte w) (dateAdded p))"

definition countWhere :: "StoreWhere \<Rightarrow> Paper list \<Rightarrow> nat" where
  "countWhere w db = length (filter (matchesWhere w) db)"

definition findManyWhere :: "StoreWhere \<Rightarrow> Paper list \<Rightarrow> Paper list" where
  "findManyWhere w db = filter (matchesWhere w) db"

text \<open>\<open>orderBy: { dateAdded: "desc" }\<close>: rows with the same instant keep their storage
  order.\<close>

definition orderByDateAddedDesc :: "Paper list \<Rightarrow> Paper list" where
  "orderByDateAddedDesc rows = sort_key (\<lambda>p. - dateAdded p) rows"

text \<open>
  \<open>findMany\<close> with \<open>skip\<close>, \<open>take\<close> and the ordering. The store rejects a \<open>skip\<close> or
  \<open>take\<close> that is not an integer and a negative \<open>skip\<close>; a negative \<open>take\<close> reads from
  the end of the ordering.
\<close>

definition findManyPage :: "StoreWhere \<Rightarrow> jsnum \<Rightarrow> jsnum \<Rightarrow> Paper list \<Rightarrow> ServiceError + Paper list" where
  "findManyPage w skip tk db =
     (let rows = orderByDateAddedDesc (findManyWhere w db) in
      case (skip, tk) of
        (Num s, Num t) \<Rightarrow>
          if s < 0 then Inl STORE_ERROR
          else if 0 \<le> t then Inr (take (nat t) (drop (nat s) rows))
          else Inr (rev (take (nat (- t)) (drop (nat s) (rev rows))))
      | _ \<Rightarrow> Inl STORE_ERROR)"

definition findUnique :: "string \<Rightarrow> Paper list \<Rightarrow> Paper option" where
  "findUnique pid db = find (\<lambda>p. paperId p = pid) db"

section \<open>Paper service\<close>

record PaginationInput =
  inPage :: "jsnum option"
  inPageSize :: "jsnum option"

record Pagination =
  page :: jsnum
  pageSize :: jsnum
  total :: nat

record PapersResult =
  items :: "PaperItem list"
  pagination :: Pagination

definition getPapers ::
  "TimeZone \<Rightarrow> int \<Rightarrow> string \<Rightarrow> (ReadingStage, ResearchDomain, ImpactScore) PaperFilters
     \<Rightarrow> PaginationInput \<Rightarrow> Paper list \<Rightarrow> ServiceError + PapersResult" where
  "getPapers tz now ownerId filters pg db =
     (let pageV = (case inPage pg of None \<Rightarrow> Num 1 | Some n \<Rightarrow> n);
          pageSizeV = (case inPageSize pg of None \<Rightarrow> Num 10 | Some n \<Rightarrow> n);
          skip = jsMul (jsSub pageV (Num 1)) pageSizeV;
          w = getPapersWhere tz now ownerId filters;
          totalV = countWhere w db
      in case findManyPage w skip pageSizeV db of
           Inl e \<Rightarrow> Inl e
         | Inr papers \<Rightarrow>
             Inr \<lparr>items = map PaperItem.truncate papers,
                  pagination = \<lparr>page = pageV, pageSize = pageSizeV, total = totalV\<rparr>\<rparr>)"

record CreatePaperInput =
  newTitle :: string
  newFirstAuthor :: string
  newResearchDomain :: ResearchDomain
  newReadingStage :: ReadingStage
  newCitationCount :: int
  newImpactScore :: ImpactScore

text \<open>
  \<open>createPaper\<close>. The store generates the primary key; \<open>newId\<close> is the key it generates
  for this row, and a key that is already taken makes the insertion fail. The result is the
  selected \<open>id\<close> and the table after the insertion.
\<close>

definition createPaper ::
  "string \<Rightarrow> int \<Rightarrow> string \<Rightarrow> CreatePaperInput \<Rightarrow> Paper list
     \<Rightarrow> ServiceError + (string \<times> Paper list)" where
  "createPaper newId now ownerId d db =
     (let existingPaper =
            find (\<lambda>p. title p = newTitle d \<and> firstAuthor p = newFirstAuthor d
                       \<and> userKeyId p = ownerId) db
      in case existingPaper of
           Some _ \<Rightarrow> Inl DUPLICATE_PAPER
         | None \<Rightarrow>
             if newId \<in> set (map paperId db) then Inl STORE_ERROR
             else
               (let paper = \<lparr>paperId = newId, title = newTitle d,
                              firstAuthor = newFirstAuthor d,
                              researchDomain = newResearchDomain d,
                              readingStage = newReadingStage d,
                              citationCount = newCitationCount d,
                              impactScore = newImpactScore d,
                              dateAdded = now, isArchived = False, userKeyId = ownerId\<rparr>
                in Inr (paperId paper, db @ [paper])))"

record UpdatePaperInput =
  updResearchDomain :: "ResearchDomain option"
  updReadingStage :: "ReadingStage option"
  updCitationCount :: "int option"

text \<open>\<open>prisma.paper.update\<close>: the row with the given key is replaced; a field that is
  \<open>undefined\<close> in \<open>data\<close> keeps its value.\<close>

definition updateRow :: "string \<Rightarrow> (Paper \<Rightarrow> Paper) \<Rightarrow> Paper list \<Rightarrow> Paper list" where
  "updateRow pid f db = map (\<lambda>p. if paperId p = pid then f p else p) db"

definition applyUpdate :: "UpdatePaperInput \<Rightarrow> Paper \<Rightarrow> Paper" where
  "applyUpdate d p =
     p\<lparr>researchDomain := (case updResearchDomain d of None \<Rightarrow> researchDomain p | Some v \<Rightarrow> v),
       readingStage := (case updReadingStage d of None \<Rightarrow> readingStage p | Some v \<Rightarrow> v),
       citationCount := (case updCitationCount d of None \<Rightarrow> citationCount p | Some v \<Rightarrow> v)\<rparr>"

definition updatePaper ::
  "string \<Rightarrow> string \<Rightarrow> UpdatePaperInput \<Rightarrow> Paper list \<Rightarrow> ServiceError + Paper list" where
  "updatePaper pid ownerId d db =
     (case findUnique pid db of
        None \<Rightarrow> Inl NOT_FOUND
      | Some paper \<Rightarrow>
          if userKeyId paper \<noteq> ownerId then Inl NOT_FOUND
          else Inr (updateRow pid (applyUpdate d) db))"

definition archivePaper :: "string \<Rightarrow> string \<Rightarrow> Paper list \<Rightarrow> ServiceError + Paper list" where
  "archivePaper pid ownerId db =
     (case findUnique pid db of
        None \<Rightarrow> Inl NOT_FOUND
      | Some paper \<Rightarrow>
          if userKeyId paper \<noteq> ownerId then Inl NOT_FOUND
          else Inr (updateRow pid (\<lambda>p. p\<lparr>isArchived := True\<rparr>) db))"

section \<open>Analytics service\<close>

record FunnelData =
  stage :: ReadingStage
  count :: nat

record ScatterData =
  scatterCitationCount :: int
  scatterImpactScore :: ImpactScore

text \<open>The \<open>stages\<close> object of a stacked bar lists its keys in the order of insertion.\<close>

record StackedBarData =
  domain :: ResearchDomain
  stages :: "(ReadingStage \<times> nat) list"

record SummaryMetrics =
  totalPapers :: nat
  fullyRead :: nat
  completionRate :: real
  avgCitationsByDomain :: "(ResearchDomain \<times> real) list"

record AnalyticsResponse =
  funnel :: "FunnelData list"
  scatter :: "ScatterData list"
  stackedBar :: "StackedBarData list"
  summary :: SummaryMetrics

definition allStages :: "ReadingStage list" where
  "allStages = [ABSTRACT_READ, INTRODUCTION_DONE, METHODOLOGY_DONE, RESULTS_ANALYZED,
     FULLY_READ, NOTES_COMPLETED]"

definition allDomains :: "ResearchDomain list" where
  "allDomains = [COMPUTER_SCIENCE, BIOLOGY, PHYSICS, CHEMISTRY, MATHEMATICS, SOCIAL_SCIENCES]"

text \<open>\<open>m.get(k) || 0\<close>: an absent key reads as 0.\<close>

fun orZero :: "nat option \<Rightarrow> nat" where
  "orZero None = 0"
| "orZero (Some c) = c"

text \<open>
  \<open>computeFunnelData\<close>: the \<open>Map\<close> of counters is a partial function, the two
  \<open>forEach\<close> loops are folds over it, and the result maps over \<open>allStages\<close>.
\<close>

definition initStage :: "ReadingStage \<Rightarrow> (ReadingStage \<rightharpoonup> nat) \<Rightarrow> (ReadingStage \<rightharpoonup> nat)" where
  "initStage s stageCounts = stageCounts(s \<mapsto> 0)"

definition countPaper :: "Paper \<Rightarrow> (ReadingStage \<rightharpoonup> nat) \<Rightarrow> (ReadingStage \<rightharpoonup> nat)" where
  "countPaper paper stageCounts =
     (let currentCount = orZero (stageCounts (readingStage paper))
      in stageCounts(readingStage paper \<mapsto> currentCount + 1))"

definition computeFunnelData :: "Paper list \<Rightarrow> FunnelData list" where
  "computeFunnelData papers =
     (let stageCounts = fold countPaper papers (fold initStage allStages Map.empty)
      in map (\<lambda>s. \<lparr>stage = s, count = orZero (stageCounts s)\<rparr>) allStages)"

definition computeScatterData :: "Paper list \<Rightarrow> ScatterData list" where
  "computeScatterData papers =
     map (\<lambda>paper. \<lparr>scatterCitationCount = citationCount paper,
                     scatterImpactScore = impactScore paper\<rparr>) papers"

text \<open>
  \<open>computeStackedBarData\<close>: the outer \<open>Map\<close> is a partial function from domains; each inner
  \<open>Map\<close> is an association list, so that the order of insertion is kept (\<open>set\<close> on a key
  that is present replaces its value in place, on a new key appends).
\<close>

definition initDomain ::
  "ResearchDomain \<Rightarrow> (ResearchDomain \<rightharpoonup> (ReadingStage \<times> nat) list)
     \<Rightarrow> (ResearchDomain \<rightharpoonup> (ReadingStage \<times> nat) list)" where
  "initDomain d domainStages = domainStages(d \<mapsto> [])"

definition countDomainStage ::
  "Paper \<Rightarrow> (ResearchDomain \<rightharpoonup> (ReadingStage \<times> nat) list)
     \<Rightarrow> (ResearchDomain \<rightharpoonup> (ReadingStage \<times> nat) list)" where
  "countDomainStage paper domainStages =
     (case domainStages (researchDomain paper) of
        None \<Rightarrow> domainStages
      | Some domainMap \<Rightarrow>
          (let currentCount = orZero (map_of domainMap (readingStage paper))
           in domainStages(researchDomain paper \<mapsto>
                AList.update (readingStage paper) (currentCount + 1) domainMap)))"

definition computeStackedBarData :: "Paper list \<Rightarrow> StackedBarData list" where
  "computeStackedBarData papers =
     (let domainStages = fold countDomainStage papers (fold initDomain allDomains Map.empty)
      in map (\<lambda>d. \<lparr>domain = d,
                    stages = (case domainStages d of None \<Rightarrow> [] | Some stageMap \<Rightarrow> stageMap)\<rparr>)
           allDomains)"

text \<open>
  What the counting loop does to the inner \<open>Map\<close> of one domain, on the records of that
  domain alone; \<open>computeStackedBarData\<close> is compared with it below.
\<close>

fun tallyStages :: "Paper list \<Rightarrow> (ReadingStage \<times> nat) list \<Rightarrow> (ReadingStage \<times> nat) list" where
  "tallyStages [] al = al"
| "tallyStages (p # ps) al =
     tallyStages ps
       (AList.update (readingStage p) (orZero (map_of al (readingStage p)) + 1) al)"

text \<open>
  \<open>computeSummaryMetrics\<close>. The two quotients are JavaScript divisions of integers; they
  are modelled by the exact quotient of real numbers, which the floating-point division
  rounds to the nearest double.
\<close>

definition avgCitations :: "Paper list \<Rightarrow> ResearchDomain \<Rightarrow> real" where
  "avgCitations papers d =
     (let domainPapers = filter (\<lambda>paper. researchDomain paper = d) papers
      in if length domainPapers > 0 then
           (let totalCitations = foldl (\<lambda>sum paper. sum + citationCount paper) 0 domainPapers
            in real_of_int totalCitations / real (length domainPapers))
         else 0)"

definition computeSummaryMetrics :: "Paper list \<Rightarrow> SummaryMetrics" where
  "computeSummaryMetrics papers =
     (let totalPapersV = length papers;
          fullyReadV = length (filter (\<lambda>paper. readingStage paper = FULLY_READ) papers);
          completionRateV =
            (if totalPapersV > 0 then real fullyReadV / real totalPapersV else 0)
      in \<lparr>totalPapers = totalPapersV, fullyRead = fullyReadV,
           completionRate = completionRateV,
           avgCitationsByDomain = map (\<lambda>d. (d, avgCitations papers d)) allDomains\<rparr>)"

text \<open>\<open>getAnalytics\<close>: the rows are read without ordering or paging; the selection keeps
  every field the four computations read.\<close>

definition getAnalytics ::
  "TimeZone \<Rightarrow> int \<Rightarrow> string \<Rightarrow> (ReadingStage, ResearchDomain, ImpactScore) PaperFilters
     \<Rightarrow> Paper list \<Rightarrow> AnalyticsResponse" where
  "getAnalytics tz now ownerId filters db =
     (let w = buildWhereClause tz now ownerId filters;
          papers = findManyWhere w db
      in \<lparr>funnel = computeFunnelData papers, scatter = computeScatterData papers,
           stackedBar = computeStackedBarData papers,
           summary = computeSummaryMetrics papers\<rparr>)"

section \<open>Controllers\<close>

text \<open>
  A value of \<open>req.query\<close>: a string, a nested object, or an array of such values. A
  parameter that is absent is \<open>None\<close>. Strings are lists of code units below 256.
\<close>

datatype qvalue = QStr string | QObj | QArr "qvalue list"

record ListQuery =
  q_readingStages :: "qvalue option"
  q_domains :: "qvalue option"
  q_impactScores :: "qvalue option"
  q_dateRange :: "qvalue option"
  q_page :: "qvalue option"
  q_pageSize :: "qvalue option"

fun truthy :: "qvalue \<Rightarrow> bool" where
  "truthy (QStr s) = (s \<noteq> [])"
| "truthy QObj = True"
| "truthy (QArr vs) = True"

definition toArray :: "qvalue \<Rightarrow> qvalue list" where
  "toArray v = (case v of QArr vs \<Rightarrow> vs | _ \<Rightarrow> [v])"

text \<open>\<open>xs.filter(s => typeof s === "string")\<close>, read as a list of strings.\<close>

fun stringsOf :: "qvalue list \<Rightarrow> string list" where
  "stringsOf [] = []"
| "stringsOf (QStr s # vs) = s # stringsOf vs"
| "stringsOf (_ # vs) = stringsOf vs"

definition parseListParam :: "qvalue option \<Rightarrow> string list option" where
  "parseListParam q =
     (case q of
        None \<Rightarrow> None
      | Some v \<Rightarrow> if truthy v then Some (stringsOf (toArray v)) else None)"

definition parseDateRange :: "qvalue option \<Rightarrow> string option" where
  "parseDateRange q =
     (case q of
        Some (QStr s) \<Rightarrow> if s \<noteq> [] then Some s else None
      | _ \<Rightarrow> None)"

text \<open>
  The spellings of the members of \<open>ReadingStage\<close>: the keys used by the services (as in
  \<open>ReadingStage.ABSTRACT_READ\<close>) and the labels of the shared declaration.
\<close>

definition readingStageSpellings :: "string list" where
  "readingStageSpellings =
     [''ABSTRACT_READ'', ''INTRODUCTION_DONE'', ''METHODOLOGY_DONE'', ''RESULTS_ANALYZED'',
      ''FULLY_READ'', ''NOTES_COMPLETED'', ''Abstract Read'', ''Introduction Done'',
      ''Methodology Done'', ''Results Analyzed'', ''Fully Read'', ''Notes Completed'']"

text \<open>The filter block that the paper controller and the analytics controller share.\<close>

definition parseFilters :: "ListQuery \<Rightarrow> (string, string, string) PaperFilters" where
  "parseFilters q =
     \<lparr>readingStages = parseListParam (q_readingStages q),
      researchDomains = parseListParam (q_domains q),
      impactScores = parseListParam (q_impactScores q),
      dateRange = parseDateRange (q_dateRange q)\<rparr>"

text \<open>
  \<open>parseInt(s, 10)\<close>: leading white space is skipped, a sign is read, and the longest
  run of decimal digits gives the value; no digit gives \<open>NaN\<close>. The result is the
  double nearest to the integer that the digits denote, a tie going to the even
  significand, and an infinity from \<open>2^1024 - 2^970\<close> on. (The standard leaves the
  digits after the twentieth to the implementation; they are read as they stand.)
\<close>

function bitLength :: "int \<Rightarrow> nat" where
  "bitLength n = (if n \<le> 0 then 0 else Suc (bitLength (n div 2)))"
  by pat_completeness auto
termination
  by (relation "measure nat") auto

declare bitLength.simps [simp del]

text \<open>The double nearest to a natural number, or \<open>None\<close> when that is the
  infinity.\<close>

definition roundToDouble :: "int \<Rightarrow> int option" where
  "roundToDouble n =
     (if n < 2 ^ 53 then Some n
      else
        (let e = bitLength n - 53;
             q = n div 2 ^ e;
             r = n mod 2 ^ e;
             half = 2 ^ (e - 1);
             q = (if half < r \<or> (r = half \<and> odd q) then q + 1 else q);
             m = q * 2 ^ e
         in if 2 ^ 1024 \<le> m then None else Some m))"

definition isWhiteSpace :: "char \<Rightarrow> bool" where
  "isWhiteSpace c = (of_char c \<in> set [9, 10, 11, 12, 13, 32, 160 :: nat])"

definition isDigit :: "char \<Rightarrow> bool" where
  "isDigit c = (48 \<le> (of_char c :: nat) \<and> (of_char c :: nat) \<le> 57)"

definition digitsValue :: "string \<Rightarrow> int" where
  "digitsValue ds = foldl (\<lambda>acc c. 10 * acc + (of_char c - 48)) 0 ds"

definition parseInt10 :: "string \<Rightarrow> jsnum" where
  "parseInt10 inputString =
     (let S = dropWhile isWhiteSpace inputString;
          negative = (case S of [] \<Rightarrow> False | c # _ \<Rightarrow> c = CHR ''-'');
          S = (case S of [] \<Rightarrow> S | c # r \<Rightarrow> if c = CHR ''+'' \<or> c = CHR ''-'' then r else S);
          Z = takeWhile isDigit S
      in if Z = [] then NaN
         else
           (case roundToDouble (digitsValue Z) of
              None \<Rightarrow> if negative then NegInfinity else PosInfinity
            | Some m \<Rightarrow> if negative then Num (- m) else Num m))"

text \<open>\<open>Array.isArray(x) ? x[0] : x\<close>; the first element of an empty array is
  \<open>undefined\<close>.\<close>

definition firstParam :: "qvalue option \<Rightarrow> qvalue option" where
  "firstParam q =
     (case q of
        Some (QArr vs) \<Rightarrow> (case vs of [] \<Rightarrow> None | v # _ \<Rightarrow> Some v)
      | _ \<Rightarrow> q)"

definition parseNumberParam :: "qvalue option \<Rightarrow> int \<Rightarrow> jsnum" where
  "parseNumberParam param dflt =
     (case param of
        Some (QStr s) \<Rightarrow> if s \<noteq> [] then parseInt10 s else Num dflt
      | _ \<Rightarrow> Num dflt)"

definition parsePagination :: "ListQuery \<Rightarrow> PaginationInput" where
  "parsePagination q =
     (let pageParam = firstParam (q_page q);
          pageSizeParam = firstParam (q_pageSize q)
      in \<lparr>inPage = Some (parseNumberParam pageParam 1),
          inPageSize = Some (parseNumberParam pageSizeParam 10)\<rparr>)"

text \<open>The response envelope of the two handlers below; its \<open>data\<close> is \<open>null\<close> in
  each of their responses.\<close>

record ApiResponse =
  statusCode :: nat
  code :: string
  message :: string

definition errorHandler :: ApiResponse where
  "errorHandler =
     \<lparr>statusCode = 500, code = ''INTERNAL_ERROR'', message = ''Unexpected server error''\<rparr>"

definition notFoundResponse :: ApiResponse where
  "notFoundResponse =
     \<lparr>statusCode = 404, code = ''NOT_FOUND'', message = ''Resource not found''\<rparr>"

definition updatePaperHandler ::
  "string \<Rightarrow> string \<Rightarrow> UpdatePaperInput \<Rightarrow> Paper list \<Rightarrow> ApiResponse \<times> Paper list" where
  "updatePaperHandler ownerId pid d db =
     (case updatePaper pid ownerId d db of
        Inr db' \<Rightarrow>
          (\<lparr>statusCode = 200, code = ''PAPER_UPDATED'',
            message = ''Paper updated successfully''\<rparr>, db')
      | Inl e \<Rightarrow> if e = NOT_FOUND then (notFoundResponse, db) else (errorHandler, db))"

definition archivePaperHandler ::
  "string \<Rightarrow> string \<Rightarrow> Paper list \<Rightarrow> ApiResponse \<times> Paper list" where
  "archivePaperHandler ownerId pid db =
     (case archivePaper pid ownerId db of
        Inr db' \<Rightarrow>
          (\<lparr>statusCode = 200, code = ''PAPER_ARCHIVED'',
            message = ''Paper archived successfully''\<rparr>, db')
      | Inl e \<Rightarrow> if e = NOT_FOUND then (notFoundResponse, db) else (errorHandler, db))"

text \<open>
  The enumerations of the store. The Prisma schema is not among the sources, so the spelling
  under which the store accepts each member is a parameter: a decoder for each of the three
  enumerations, which gives \<open>None\<close> for a string that spells no member. The store
  validates the \<open>where\<close> object of a query and rejects it when an inclusion list holds
  such a string.
\<close>

record EnumSchema =
  stageOfString :: "string \<Rightarrow> ReadingStage option"
  domainOfString :: "string \<Rightarrow> ResearchDomain option"
  impactOfString :: "string \<Rightarrow> ImpactScore option"

fun decodeAll :: "(string \<Rightarrow> 'a option) \<Rightarrow> string list \<Rightarrow> 'a list option" where
  "decodeAll dec [] = Some []"
| "decodeAll dec (s # ss) =
     (case dec s of
        None \<Rightarrow> None
      | Some v \<Rightarrow> (case decodeAll dec ss of None \<Rightarrow> None | Some vs \<Rightarrow> Some (v # vs)))"

text \<open>A filter list that is absent has nothing to decode.\<close>

definition decodeField ::
  "(string \<Rightarrow> 'a option) \<Rightarrow> string list option \<Rightarrow> 'a list option option" where
  "decodeField dec l =
     (case l of
        None \<Rightarrow> Some None
      | Some ss \<Rightarrow> (case decodeAll dec ss of None \<Rightarrow> None | Some vs \<Rightarrow> Some (Some vs)))"

definition decodeFilters ::
  "EnumSchema \<Rightarrow> (string, string, string) PaperFilters
     \<Rightarrow> (ReadingStage, ResearchDomain, ImpactScore) PaperFilters option" where
  "decodeFilters sc f =
     (case decodeField (stageOfString sc) (readingStages f) of
        None \<Rightarrow> None
      | Some st \<Rightarrow>
          (case decodeField (domainOfString sc) (researchDomains f) of
             None \<Rightarrow> None
           | Some dm \<Rightarrow>
               (case decodeField (impactOfString sc) (impactScores f) of
                  None \<Rightarrow> None
                | Some im \<Rightarrow>
                    Some \<lparr>readingStages = st, researchDomains = dm, impactScores = im,
                          dateRange = dateRange f\<rparr>)))"

text \<open>
  The two services as the controllers call them, with the strings of the request in the
  filter lists. The services hand the lists on to the store unread, so a call is the
  service above on the decoded lists, or the error of the store when a list does not
  decode.
\<close>

definition getPapersCall ::
  "EnumSchema \<Rightarrow> TimeZone \<Rightarrow> int \<Rightarrow> string \<Rightarrow> (string, string, string) PaperFilters
     \<Rightarrow> PaginationInput \<Rightarrow> Paper list \<Rightarrow> ServiceError + PapersResult" where
  "getPapersCall sc tz now ownerId filters pg db =
     (case decodeFilters sc filters of
        None \<Rightarrow> Inl STORE_ERROR
      | Some f \<Rightarrow> getPapers tz now ownerId f pg db)"

definition getAnalyticsCall ::
  "EnumSchema \<Rightarrow> TimeZone \<Rightarrow> int \<Rightarrow> string \<Rightarrow> (string, string, string) PaperFilters
     \<Rightarrow> Paper list \<Rightarrow> ServiceError + AnalyticsResponse" where
  "getAnalyticsCall sc tz now ownerId filters db =
     (case decodeFilters sc filters of
        None \<Rightarrow> Inl STORE_ERROR
      | Some f \<Rightarrow> Inr (getAnalytics tz now ownerId f db))"

text \<open>
  The handlers of \<open>GET /papers\<close> and \<open>GET /analytics\<close>. Every error goes to
  \<open>next\<close> and so to the error handler, whose response has no data.
\<close>

record 'a DataResponse = ApiResponse +
  payload :: "'a option"

definition getPapersHandler ::
  "EnumSchema \<Rightarrow> TimeZone \<Rightarrow> int \<Rightarrow> string \<Rightarrow> ListQuery \<Rightarrow> Paper list
     \<Rightarrow> PapersResult DataResponse" where
  "getPapersHandler sc tz now ownerId q db =
     (let filters = parseFilters q;
          pg = parsePagination q
      in case getPapersCall sc tz now ownerId filters pg db of
           Inr result \<Rightarrow>
             \<lparr>statusCode = 200, code = ''PAPERS_FETCHED'',
              message = ''Papers fetched successfully'', payload = Some result\<rparr>
         | Inl e \<Rightarrow>
             \<lparr>statusCode = 500, code = ''INTERNAL_ERROR'',
              message = ''Unexpected server error'', payload = None\<rparr>)"

definition getAnalyticsHandler ::
  "EnumSchema \<Rightarrow> TimeZone \<Rightarrow> int \<Rightarrow> string \<Rightarrow> ListQuery \<Rightarrow> Paper list
     \<Rightarrow> AnalyticsResponse DataResponse" where
  "getAnalyticsHandler sc tz now ownerId q db =
     (let filters = parseFilters q
      in case getAnalyticsCall sc tz now ownerId filters db of
           Inr result \<Rightarrow>
             \<lparr>statusCode = 200, code = ''ANALYTICS_FETCHED'',
              message = ''Analytics fetched successfully'', payload = Some result\<rparr>
         | Inl e \<Rightarrow>
             \<lparr>statusCode = 500, code = ''INTERNAL_ERROR'',
              message = ''Unexpected server error'', payload = None\<rparr>)"

section \<open>The scoped predicate, as specified\<close>

text \<open>
  The scoped predicate in the specification's words, for comparison with the \<open>where\<close>
  objects above:
  a canonical filter has four optional slots, three inclusion sets and a lower bound on
  \<open>dateAdded\<close>; a list that is present and not empty becomes an inclusion set, an absent
  or empty one leaves its dimension unconstrained. The scoped predicate is owner equality
  and \<open>isArchived = false\<close>, and membership in each inclusion set that is present.
\<close>

record FilterSpec =
  specStages :: "ReadingStage set option"
  specDomains :: "ResearchDomain set option"
  specImpacts :: "ImpactScore set option"
  specLowerBound :: "int option"

definition inclusionSet :: "'a list option \<Rightarrow> 'a set option" where
  "inclusionSet l = (case l of None \<Rightarrow> None | Some xs \<Rightarrow> if xs = [] then None else Some (set xs))"

definition filterSpecOf ::
  "TimeZone \<Rightarrow> int \<Rightarrow> (ReadingStage, ResearchDomain, ImpactScore) PaperFilters \<Rightarrow> FilterSpec" where
  "filterSpecOf tz now filters =
     \<lparr>specStages = inclusionSet (readingStages filters),
      specDomains = inclusionSet (researchDomains filters),
      specImpacts = inclusionSet (impactScores filters),
      specLowerBound =
        (case dateRange filters of None \<Rightarrow> None | Some r \<Rightarrow> getDateRangeStart tz now r)\<rparr>"

definition memberOf :: "'a set option \<Rightarrow> 'a \<Rightarrow> bool" where
  "memberOf c x = (case c of None \<Rightarrow> True | Some S \<Rightarrow> x \<in> S)"

definition specScopedPredicate :: "string \<Rightarrow> FilterSpec \<Rightarrow> Paper \<Rightarrow> bool" where
  "specScopedPredicate ownerId fs p =
     (userKeyId p = ownerId \<and> \<not> isArchived p
      \<and> memberOf (specStages fs) (readingStage p)
      \<and> memberOf (specDomains fs) (researchDomain p)
      \<and> memberOf (specImpacts fs) (impactScore p)
      \<and> (case specLowerBound fs of None \<Rightarrow> True | Some b \<Rightarrow> b \<le> dateAdded p))"

section \<open>Example data\<close>

text \<open>
  A small table for the concrete instances below: three active records of owner \<open>k1\<close>
  (two in Physics, one in Biology), one archived record of \<open>k1\<close>, and one record of
  owner \<open>k2\<close>.
\<close>

definition paperA :: Paper where
  "paperA = \<lparr>paperId = ''a'', title = ''Alpha'', firstAuthor = ''Ada'',
     researchDomain = PHYSICS, readingStage = FULLY_READ, citationCount = 10,
     impactScore = HIGH_IMPACT, dateAdded = 1000, isArchived = False, userKeyId = ''k1''\<rparr>"

definition paperB :: Paper where
  "paperB = \<lparr>paperId = ''b'', title = ''Beta'', firstAuthor = ''Bob'',
     researchDomain = PHYSICS, readingStage = ABSTRACT_READ, citationCount = 0,
     impactScore = UNKNOWN, dateAdded = 3000, isArchived = False, userKeyId = ''k1''\<rparr>"

definition paperC :: Paper where
  "paperC = \<lparr>paperId = ''c'', title = ''Gamma'', firstAuthor = ''Cy'',
     researchDomain = BIOLOGY, readingStage = FULLY_READ, citationCount = 5,
     impactScore = LOW_IMPACT, dateAdded = 2000, isArchived = False, userKeyId = ''k1''\<rparr>"

definition paperD :: Paper where
  "paperD = \<lparr>paperId = ''d'', title = ''Delta'', firstAuthor = ''Di'',
     researchDomain = CHEMISTRY, readingStage = NOTES_COMPLETED, citationCount = 7,
     impactScore = MEDIUM_IMPACT, dateAdded = 4000, isArchived = True, userKeyId = ''k1''\<rparr>"

definition paperE :: Paper where
  "paperE = \<lparr>paperId = ''e'', title = ''Alpha'', firstAuthor = ''Ada'',
     researchDomain = MATHEMATICS, readingStage = FULLY_READ, citationCount = 1,
     impactScore = LOW_IMPACT, dateAdded = 5000, isArchived = False, userKeyId = ''k2''\<rparr>"

definition exampleDb :: "Paper list" where
  "exampleDb = [paperA, paperB, paperC, paperD, paperE]"

definition exampleUpdate :: UpdatePaperInput where
  "exampleUpdate = \<lparr>updResearchDomain = None, updReadingStage = Some FULLY_READ,
     updCitationCount = Some 12\<rparr>"

text \<open>The zone of a host on UTC, the zone of New York in 2026 (daylight time from 8 March
  07:00 UTC to 1 November 06:00 UTC), and the zone of Tehran in March 2021 (daylight time
  from 21 March 20:30 UTC, which is local midnight of Monday 22 March).\<close>

definition utcZone :: TimeZone where
  "utcZone = \<lparr>baseOffset = 0, transitions = []\<rparr>"



text \<open>A schema that spells every member by the key of its enumeration.\<close>

definition keySchema :: EnumSchema where
  "keySchema =
     \<lparr>stageOfString =
        map_of [(''ABSTRACT_READ'', ABSTRACT_READ), (''INTRODUCTION_DONE'', INTRODUCTION_DONE),
          (''METHODOLOGY_DONE'', METHODOLOGY_DONE), (''RESULTS_ANALYZED'', RESULTS_ANALYZED),
          (''FULLY_READ'', FULLY_READ), (''NOTES_COMPLETED'', NOTES_COMPLETED)],
      domainOfString =
        map_of [(''COMPUTER_SCIENCE'', COMPUTER_SCIENCE), (''BIOLOGY'', BIOLOGY),
          (''PHYSICS'', PHYSICS), (''CHEMISTRY'', CHEMISTRY), (''MATHEMATICS'', MATHEMATICS),
          (''SOCIAL_SCIENCES'', SOCIAL_SCIENCES)],
      impactOfString =
        map_of [(''HIGH_IMPACT'', HIGH_IMPACT), (''MEDIUM_IMPACT'', MEDIUM_IMPACT),
          (''LOW_IMPACT'', LOW_IMPACT), (''UNKNOWN'', UNKNOWN)]\<rparr>"

definition emptyQuery :: ListQuery where
  "emptyQuery = \<lparr>q_readingStages = None, q_domains = None, q_impactScores = None,
     q_dateRange = None, q_page = None, q_pageSize = None\<rparr>"

definition noFilters :: "('s, 'd, 'i) PaperFilters" where
  "noFilters = \<lparr>readingStages = None, researchDomains = None, impactScores = None,
     dateRange = None\<rparr>"

section \<open>Properties of the aggregation\<close>

lemma fold_countPaper:
  "orZero (fold countPaper ps m s) = orZero (m s) + length (filter (\<lambda>p. readingStage p = s) ps)"
  by (induction ps arbitrary: m) (auto simp: countPaper_def Let_def)

lemma initStage_zero: "orZero (fold initStage ss Map.empty s) = 0"
proof -
  have "orZero (m s) = 0 \<Longrightarrow> orZero (fold initStage ss m s) = 0" for m
    by (induction ss arbitrary: m) (auto simp: initStage_def)
  then show ?thesis by simp
qed

lemma funnel_entries:
  "computeFunnelData ps =
     map (\<lambda>s. \<lparr>stage = s, count = length (filter (\<lambda>p. readingStage p = s) ps)\<rparr>) allStages"
  by (simp add: computeFunnelData_def Let_def fold_countPaper initStage_zero)

lemma stage_partition:
  "(\<Sum>s\<leftarrow>allStages. length (filter (\<lambda>p. readingStage p = s) ps)) = length ps"
proof (induction ps)
  case Nil
  show ?case by (simp add: allStages_def)
next
  case (Cons p ps)
  then show ?case by (cases "readingStage p") (simp_all add: allStages_def)
qed

lemma totalPapers_length: "totalPapers (computeSummaryMetrics ps) = length ps"
  by (simp add: computeSummaryMetrics_def Let_def)

text \<open>
  Claim C3. For every list of records the funnel has exactly six entries, one for each
  reading stage in the order of the enumeration; the count of an entry is the number of
  records at its stage, a stage without records being listed with count 0; and the six
  counts add up to \<open>totalPapers\<close> of the summary computed from the same records.
\<close>

theorem funnel_six_dense_entries:
  "computeFunnelData papers =
     map (\<lambda>s. \<lparr>stage = s, count = length (filter (\<lambda>p. readingStage p = s) papers)\<rparr>)
       [ABSTRACT_READ, INTRODUCTION_DONE, METHODOLOGY_DONE, RESULTS_ANALYZED, FULLY_READ,
        NOTES_COMPLETED]
   \<and> length (computeFunnelData papers) = 6
   \<and> sum_list (map count (computeFunnelData papers))
       = totalPapers (computeSummaryMetrics papers)"
proof -
  have e: "computeFunnelData papers =
     map (\<lambda>s. \<lparr>stage = s, count = length (filter (\<lambda>p. readingStage p = s) papers)\<rparr>) allStages"
    by (rule funnel_entries)
  have "sum_list (map count (computeFunnelData papers))
      = (\<Sum>s\<leftarrow>allStages. length (filter (\<lambda>p. readingStage p = s) papers))"
    unfolding e by (simp add: comp_def)
  then have "sum_list (map count (computeFunnelData papers)) = length papers"
    by (simp add: stage_partition)
  then show ?thesis
    using e by (simp add: allStages_def totalPapers_length)
qed

lemma initDomain_all: "fold initDomain allDomains Map.empty d = Some []"
  by (cases d) (simp_all add: allDomains_def initDomain_def)

lemma countDomainStage_defined:
  "m d \<noteq> None \<Longrightarrow> countDomainStage p m d \<noteq> None"
  by (auto simp: countDomainStage_def Let_def split: option.splits)

text \<open>The tally of one domain depends on the records of that domain only.\<close>

lemma fold_countDomainStage_domain:
  "\<forall>d. m d \<noteq> None \<Longrightarrow>
   fold countDomainStage ps m d =
     Some (tallyStages (filter (\<lambda>p. researchDomain p = d) ps) (the (m d)))"
proof (induction ps arbitrary: m)
  case Nil
  then show ?case by auto
next
  case (Cons p ps)
  have d: "\<forall>d. countDomainStage p m d \<noteq> None"
    using Cons.prems by (simp add: countDomainStage_defined)
  obtain al where al: "m (researchDomain p) = Some al"
    using Cons.prems by auto
  have step: "the (countDomainStage p m d) =
     (if researchDomain p = d
      then AList.update (readingStage p) (orZero (map_of (the (m d)) (readingStage p)) + 1) (the (m d))
      else the (m d))"
    using al by (auto simp: countDomainStage_def Let_def)
  show ?case
    using Cons.IH [OF d] by (simp add: step)
qed

lemma tally_map_of:
  "orZero (map_of (tallyStages ps al) s)
     = orZero (map_of al s) + length (filter (\<lambda>p. readingStage p = s) ps)"
  by (induction ps arbitrary: al) (auto simp: update_conv')

lemma tally_None:
  "map_of (tallyStages ps al) s = None
     \<longleftrightarrow> map_of al s = None \<and> filter (\<lambda>p. readingStage p = s) ps = []"
  by (induction ps arbitrary: al) (auto simp: update_conv')

lemma tally_distinct:
  "distinct (map fst al) \<Longrightarrow> distinct (map fst (tallyStages ps al))"
  by (induction ps arbitrary: al) (auto simp: distinct_update)

lemma update_increment_sum:
  "sum_list (map snd (AList.update k (orZero (map_of al k) + 1) al)) = sum_list (map snd al) + 1"
  by (induction al) auto

lemma tally_sum:
  "sum_list (map snd (tallyStages ps al)) = sum_list (map snd al) + length ps"
proof (induction ps arbitrary: al)
  case Nil
  show ?case by simp
next
  case (Cons p ps)
  have "sum_list (map snd (tallyStages (p # ps) al))
      = sum_list (map snd (AList.update (readingStage p)
           (orZero (map_of al (readingStage p)) + 1) al)) + length ps"
    using Cons.IH by simp
  also have "\<dots> = sum_list (map snd al) + 1 + length ps"
    by (simp only: update_increment_sum)
  finally show ?case by simp
qed

lemma stackedBar_entries:
  "computeStackedBarData ps =
     map (\<lambda>d. \<lparr>domain = d, stages = tallyStages (filter (\<lambda>p. researchDomain p = d) ps) []\<rparr>)
       allDomains"
proof -
  have "\<forall>d. fold initDomain allDomains Map.empty d \<noteq> None"
    by (simp add: initDomain_all)
  then show ?thesis
    by (simp add: computeStackedBarData_def Let_def fold_countDomainStage_domain initDomain_all)
qed

lemma domain_partition:
  "(\<Sum>d\<leftarrow>allDomains. length (filter (\<lambda>p. researchDomain p = d) ps)) = length ps"
proof (induction ps)
  case Nil
  show ?case by (simp add: allDomains_def)
next
  case (Cons p ps)
  then show ?case by (cases "researchDomain p") (simp_all add: allDomains_def)
qed

lemma filter_domain_stage:
  "filter (\<lambda>p. readingStage p = s) (filter (\<lambda>p. researchDomain p = d) ps)
     = filter (\<lambda>p. researchDomain p = d \<and> readingStage p = s) ps"
  by (induction ps) auto

lemma tally_keys:
  "map_of (tallyStages (filter (\<lambda>p. researchDomain p = d) ps) []) s =
     (let n = length (filter (\<lambda>p. researchDomain p = d \<and> readingStage p = s) ps)
      in if n = 0 then None else Some n)"
proof (cases "map_of (tallyStages (filter (\<lambda>p. researchDomain p = d) ps) []) s")
  case None
  then show ?thesis
    using tally_None [of "filter (\<lambda>p. researchDomain p = d) ps" "[]" s]
    by (simp add: filter_domain_stage)
next
  case (Some n)
  have "filter (\<lambda>p. readingStage p = s) (filter (\<lambda>p. researchDomain p = d) ps) \<noteq> []"
    using Some tally_None [of "filter (\<lambda>p. researchDomain p = d) ps" "[]" s] by auto
  moreover have "n = length (filter (\<lambda>p. readingStage p = s) (filter (\<lambda>p. researchDomain p = d) ps))"
    using Some tally_map_of [of "filter (\<lambda>p. researchDomain p = d) ps" "[]" s] by simp
  ultimately show ?thesis
    using Some by (simp add: filter_domain_stage Let_def)
qed

text \<open>
  Claim C4. For every list of records the stacked bar has exactly six entries, one for each
  research domain in the fixed order. In the entry of a domain the keys of \<open>stages\<close> are
  pairwise distinct, a stage is a key exactly when at least one record of that domain is at
  that stage, and its value is the number of those records; a domain without records has the
  empty mapping. All the counts of all six mappings add up to \<open>totalPapers\<close>.
\<close>

theorem stackedBar_six_sparse_entries:
  "map domain (computeStackedBarData papers) =
     [COMPUTER_SCIENCE, BIOLOGY, PHYSICS, CHEMISTRY, MATHEMATICS, SOCIAL_SCIENCES]
   \<and> (\<forall>e \<in> set (computeStackedBarData papers).
        distinct (map fst (stages e))
        \<and> (\<forall>s. map_of (stages e) s =
              (let n = length (filter (\<lambda>p. researchDomain p = domain e \<and> readingStage p = s) papers)
               in if n = 0 then None else Some n))
        \<and> (filter (\<lambda>p. researchDomain p = domain e) papers = [] \<longrightarrow> stages e = []))
   \<and> (\<Sum>e\<leftarrow>computeStackedBarData papers. sum_list (map snd (stages e)))
       = totalPapers (computeSummaryMetrics papers)"
proof -
  let ?tally = "\<lambda>d. tallyStages (filter (\<lambda>p. researchDomain p = d) papers) []"
  have e: "computeStackedBarData papers = map (\<lambda>d. \<lparr>domain = d, stages = ?tally d\<rparr>) allDomains"
    by (rule stackedBar_entries)
  have doms: "map domain (computeStackedBarData papers) = allDomains"
    unfolding e by (simp add: comp_def)
  have dist: "distinct (map fst (?tally d))" for d
    by (rule tally_distinct) simp
  have empty: "filter (\<lambda>p. researchDomain p = d) papers = [] \<Longrightarrow> ?tally d = []" for d
    by simp
  have "(\<Sum>e\<leftarrow>computeStackedBarData papers. sum_list (map snd (stages e)))
      = (\<Sum>d\<leftarrow>allDomains. length (filter (\<lambda>p. researchDomain p = d) papers))"
    unfolding e by (simp add: comp_def tally_sum)
  then have total: "(\<Sum>e\<leftarrow>computeStackedBarData papers. sum_list (map snd (stages e)))
      = totalPapers (computeSummaryMetrics papers)"
    by (simp add: domain_partition totalPapers_length)
  have each: "\<forall>e \<in> set (computeStackedBarData papers).
        distinct (map fst (stages e))
        \<and> (\<forall>s. map_of (stages e) s =
              (let n = length (filter (\<lambda>p. researchDomain p = domain e \<and> readingStage p = s) papers)
               in if n = 0 then None else Some n))
        \<and> (filter (\<lambda>p. researchDomain p = domain e) papers = [] \<longrightarrow> stages e = [])"
    unfolding e using dist tally_keys empty by auto
  show ?thesis
    using doms each total by (simp add: allDomains_def)
qed

theorem stackedBar_six_sparse_entries_witness:
  "\<lparr>domain = PHYSICS, stages = [(FULLY_READ, 1), (ABSTRACT_READ, 1)]\<rparr>
      \<in> set (computeStackedBarData [paperA, paperB, paperC])
   \<and> map_of [(FULLY_READ, 1), (ABSTRACT_READ, 1 :: nat)] INTRODUCTION_DONE = None
   \<and> filter (\<lambda>p. researchDomain p = CHEMISTRY) [paperA, paperB, paperC] = []
   \<and> \<lparr>domain = CHEMISTRY, stages = []\<rparr> \<in> set (computeStackedBarData [paperA, paperB, paperC])
   \<and> (\<Sum>e\<leftarrow>computeStackedBarData [paperA, paperB, paperC]. sum_list (map snd (stages e))) = 3"
  using stackedBar_six_sparse_entries [of "[paperA, paperB, paperC]"]
  by (simp add: stackedBar_entries allDomains_def paperA_def paperB_def paperC_def
      computeSummaryMetrics_def)

lemma foldl_citations:
  "foldl (\<lambda>sum paper. sum + citationCount paper) a ps = a + sum_list (map citationCount ps)"
  by (induction ps arbitrary: a) auto

lemma avgCitations_mean:
  "avgCitations ps d =
     (if filter (\<lambda>p. researchDomain p = d) ps = [] then 0
      else real_of_int (sum_list (map citationCount (filter (\<lambda>p. researchDomain p = d) ps)))
             / real (length (filter (\<lambda>p. researchDomain p = d) ps)))"
  by (simp add: avgCitations_def Let_def foldl_citations)

lemma map_of_allDomains: "map_of (map (\<lambda>d. (d, f d)) allDomains) d = Some (f d)"
  by (cases d) (simp_all add: allDomains_def)

text \<open>
  Claim C5. For every list of records, \<open>totalPapers\<close> is its length and \<open>fullyRead\<close> the
  number of its records at stage Fully Read; \<open>completionRate\<close> is their quotient when there
  is at least one record and 0 when there is none; and \<open>avgCitationsByDomain\<close> has the six
  domains as its keys, in the fixed order, each mapped to the mean citation count of the
  records of that domain (every record counted, also one with no citations) or to 0 when
  the domain has no record. Quotients are exact quotients of real numbers.
\<close>

theorem summary_metrics_formulas:
  "totalPapers (computeSummaryMetrics papers) = length papers
   \<and> fullyRead (computeSummaryMetrics papers)
       = length (filter (\<lambda>p. readingStage p = FULLY_READ) papers)
   \<and> completionRate (computeSummaryMetrics papers)
       = (if totalPapers (computeSummaryMetrics papers) > 0
          then real (fullyRead (computeSummaryMetrics papers))
                 / real (totalPapers (computeSummaryMetrics papers))
          else 0)
   \<and> map fst (avgCitationsByDomain (computeSummaryMetrics papers))
       = [COMPUTER_SCIENCE, BIOLOGY, PHYSICS, CHEMISTRY, MATHEMATICS, SOCIAL_SCIENCES]
   \<and> (\<forall>d. map_of (avgCitationsByDomain (computeSummaryMetrics papers)) d =
          Some (if filter (\<lambda>p. researchDomain p = d) papers = [] then 0
                else real_of_int
                       (sum_list (map citationCount (filter (\<lambda>p. researchDomain p = d) papers)))
                     / real (length (filter (\<lambda>p. researchDomain p = d) papers))))"
proof -
  have keys: "map fst (avgCitationsByDomain (computeSummaryMetrics papers)) = allDomains"
    by (simp add: computeSummaryMetrics_def Let_def comp_def)
  have vals: "map_of (avgCitationsByDomain (computeSummaryMetrics papers)) d
      = Some (avgCitations papers d)" for d
    by (simp add: computeSummaryMetrics_def Let_def map_of_allDomains)
  have rate: "completionRate (computeSummaryMetrics papers)
       = (if totalPapers (computeSummaryMetrics papers) > 0
          then real (fullyRead (computeSummaryMetrics papers))
                 / real (totalPapers (computeSummaryMetrics papers))
          else 0)"
    by (simp add: computeSummaryMetrics_def Let_def)
  have counts: "totalPapers (computeSummaryMetrics papers) = length papers
     \<and> fullyRead (computeSummaryMetrics papers)
       = length (filter (\<lambda>p. readingStage p = FULLY_READ) papers)"
    by (simp add: computeSummaryMetrics_def Let_def)
  show ?thesis
    using keys vals rate counts by (simp add: allDomains_def avgCitations_mean)
qed

theorem summary_metrics_formulas_witness:
  "computeSummaryMetrics [paperA, paperB, paperC] =
     \<lparr>totalPapers = 3, fullyRead = 2, completionRate = 2 / 3,
      avgCitationsByDomain = [(COMPUTER_SCIENCE, 0), (BIOLOGY, 5), (PHYSICS, 5),
        (CHEMISTRY, 0), (MATHEMATICS, 0), (SOCIAL_SCIENCES, 0)]\<rparr>
   \<and> completionRate (computeSummaryMetrics []) = 0
   \<and> citationCount paperB = 0
   \<and> map_of (avgCitationsByDomain (computeSummaryMetrics [paperB])) PHYSICS = Some 0"
  using summary_metrics_formulas [of "[paperA, paperB, paperC]"]
    summary_metrics_formulas [of "[]"] summary_metrics_formulas [of "[paperB]"]
  by (simp add: computeSummaryMetrics_def avgCitations_def allDomains_def
      paperA_def paperB_def paperC_def)

section \<open>Properties of the scoped query\<close>

lemma getDateRangeStart_empty: "getDateRangeStart tz now [] = None"
  by (simp add: getDateRangeStart_def)

lemma getPapersWhere_fields:
  "where_userKeyId (getPapersWhere tz now ownerId f) = ownerId"
  "where_isArchived (getPapersWhere tz now ownerId f) = False"
  "where_readingStage_in (getPapersWhere tz now ownerId f) =
     (case readingStages f of None \<Rightarrow> None | Some xs \<Rightarrow> if xs = [] then None else Some xs)"
  "where_researchDomain_in (getPapersWhere tz now ownerId f) =
     (case researchDomains f of None \<Rightarrow> None | Some xs \<Rightarrow> if xs = [] then None else Some xs)"
  "where_impactScore_in (getPapersWhere tz now ownerId f) =
     (case impactScores f of None \<Rightarrow> None | Some xs \<Rightarrow> if xs = [] then None else Some xs)"
  "where_dateAdded_gte (getPapersWhere tz now ownerId f) =
     (case dateRange f of None \<Rightarrow> None | Some r \<Rightarrow> getDateRangeStart tz now r)"
  by (simp_all add: getPapersWhere_def Let_def getDateRangeStart_empty split: option.splits)

lemma buildWhereClause_fields:
  "where_userKeyId (buildWhereClause tz now ownerId f) = ownerId"
  "where_isArchived (buildWhereClause tz now ownerId f) = False"
  "where_readingStage_in (buildWhereClause tz now ownerId f) =
     (case readingStages f of None \<Rightarrow> None | Some xs \<Rightarrow> if xs = [] then None else Some xs)"
  "where_researchDomain_in (buildWhereClause tz now ownerId f) =
     (case researchDomains f of None \<Rightarrow> None | Some xs \<Rightarrow> if xs = [] then None else Some xs)"
  "where_impactScore_in (buildWhereClause tz now ownerId f) =
     (case impactScores f of None \<Rightarrow> None | Some xs \<Rightarrow> if xs = [] then None else Some xs)"
  "where_dateAdded_gte (buildWhereClause tz now ownerId f) =
     (case dateRange f of None \<Rightarrow> None | Some r \<Rightarrow> getDateRangeStart tz now r)"
  by (simp_all add: buildWhereClause_def Let_def getDateRangeStart_empty split: option.splits)

text \<open>The two services build the same \<open>where\<close> object.\<close>

lemma buildWhereClause_getPapersWhere:
  "buildWhereClause tz now ownerId f = getPapersWhere tz now ownerId f"
  by (rule PaperWhere.equality) (simp_all add: buildWhereClause_fields getPapersWhere_fields)

lemma matchesWhere_visible:
  "matchesWhere (getPapersWhere tz now ownerId f) p \<Longrightarrow> userKeyId p = ownerId \<and> \<not> isArchived p"
  by (simp add: matchesWhere_def getPapersWhere_fields)

lemma filter_visible:
  "filter (matchesWhere (getPapersWhere tz now ownerId f))
       (filter (\<lambda>p. userKeyId p = ownerId \<and> \<not> isArchived p) db)
     = filter (matchesWhere (getPapersWhere tz now ownerId f)) db"
  by (induction db) (auto dest: matchesWhere_visible)

lemma findManyWhere_visible:
  "findManyWhere (getPapersWhere tz now ownerId f)
       (filter (\<lambda>p. userKeyId p = ownerId \<and> \<not> isArchived p) db)
     = findManyWhere (getPapersWhere tz now ownerId f) db"
  unfolding findManyWhere_def by (rule filter_visible)

lemma countWhere_visible:
  "countWhere (getPapersWhere tz now ownerId f)
       (filter (\<lambda>p. userKeyId p = ownerId \<and> \<not> isArchived p) db)
     = countWhere (getPapersWhere tz now ownerId f) db"
  unfolding countWhere_def by (simp only: filter_visible)

lemma findManyPage_visible:
  "findManyPage (getPapersWhere tz now ownerId f) skip tk
       (filter (\<lambda>p. userKeyId p = ownerId \<and> \<not> isArchived p) db)
     = findManyPage (getPapersWhere tz now ownerId f) skip tk db"
  unfolding findManyPage_def by (simp only: findManyWhere_visible)

text \<open>
  Claim C1. For every owner and every filter, the \<open>where\<close> object of the listing and the one
  of the analytics both carry the owner's key and \<open>isArchived = false\<close>, so a row that
  either query matches belongs to the owner and is not archived; and the result of either
  operation is the same as on the table with all archived rows and all rows of other owners
  removed: whatever the filter, an archived row contributes nothing to it.
\<close>

theorem archived_rows_never_in_scope:
  "where_userKeyId (getPapersWhere tz now ownerId filters) = ownerId
   \<and> where_isArchived (getPapersWhere tz now ownerId filters) = False
   \<and> where_userKeyId (buildWhereClause tz now ownerId filters) = ownerId
   \<and> where_isArchived (buildWhereClause tz now ownerId filters) = False
   \<and> (\<forall>p. matchesWhere (getPapersWhere tz now ownerId filters) p
            \<longrightarrow> userKeyId p = ownerId \<and> \<not> isArchived p)
   \<and> (\<forall>p. matchesWhere (buildWhereClause tz now ownerId filters) p
            \<longrightarrow> userKeyId p = ownerId \<and> \<not> isArchived p)
   \<and> getPapers tz now ownerId filters pg db
       = getPapers tz now ownerId filters pg
           (filter (\<lambda>p. userKeyId p = ownerId \<and> \<not> isArchived p) db)
   \<and> getAnalytics tz now ownerId filters db
       = getAnalytics tz now ownerId filters
           (filter (\<lambda>p. userKeyId p = ownerId \<and> \<not> isArchived p) db)"
proof -
  have listing: "getPapers tz now ownerId filters pg db
       = getPapers tz now ownerId filters pg
           (filter (\<lambda>p. userKeyId p = ownerId \<and> \<not> isArchived p) db)"
    unfolding getPapers_def Let_def by (simp only: findManyPage_visible countWhere_visible)
  have analytics: "getAnalytics tz now ownerId filters db
       = getAnalytics tz now ownerId filters
           (filter (\<lambda>p. userKeyId p = ownerId \<and> \<not> isArchived p) db)"
    unfolding getAnalytics_def Let_def buildWhereClause_getPapersWhere
    by (simp only: findManyWhere_visible)
  show ?thesis
    using listing analytics matchesWhere_visible
    by (simp add: buildWhereClause_getPapersWhere getPapersWhere_fields)
qed

theorem archived_rows_never_in_scope_witness:
  "matchesWhere (getPapersWhere utcZone 0 ''k1'' noFilters) paperA
   \<and> userKeyId paperA = ''k1'' \<and> \<not> isArchived paperA
   \<and> matchesWhere (buildWhereClause utcZone 0 ''k1'' noFilters) paperA
   \<and> isArchived paperD \<and> \<not> matchesWhere (getPapersWhere utcZone 0 ''k1'' noFilters) paperD
   \<and> getAnalytics utcZone 0 ''k1'' noFilters exampleDb
       = getAnalytics utcZone 0 ''k1'' noFilters [paperA, paperB, paperC]"
  using archived_rows_never_in_scope [of utcZone 0 "''k1''" noFilters "\<lparr>inPage = None, inPageSize = None\<rparr>" exampleDb]
  by (simp add: matchesWhere_def getPapersWhere_fields buildWhereClause_fields noFilters_def
      inList_def gteBound_def exampleDb_def paperA_def paperB_def paperC_def paperD_def paperE_def)

lemma inList_inclusionSet:
  "inList (case l of None \<Rightarrow> None | Some xs \<Rightarrow> if xs = [] then None else Some xs) x
     = memberOf (inclusionSet l) x"
  by (simp add: inList_def memberOf_def inclusionSet_def split: option.splits)

text \<open>The \<open>where\<close> object of the listing decides the scoped predicate as specified.\<close>

lemma matchesWhere_scopedPredicate:
  "matchesWhere (getPapersWhere tz now ownerId f) p
     = specScopedPredicate ownerId (filterSpecOf tz now f) p"
  by (simp add: matchesWhere_def specScopedPredicate_def filterSpecOf_def getPapersWhere_fields
      inList_inclusionSet gteBound_def)

lemma filter_scopedPredicate:
  "filter (matchesWhere (getPapersWhere tz now ownerId f)) db
     = filter (specScopedPredicate ownerId (filterSpecOf tz now f)) db"
  by (rule filter_cong) (simp_all add: matchesWhere_scopedPredicate)

lemma orderByDateAddedDesc_sorted:
  "sorted_wrt (\<lambda>a b. dateAdded b \<le> dateAdded a) (orderByDateAddedDesc rows)"
proof -
  have "sorted (map (\<lambda>p. - dateAdded p) (orderByDateAddedDesc rows))"
    unfolding orderByDateAddedDesc_def by (rule sorted_sort_key)
  then show ?thesis by (simp add: sorted_map)
qed

lemma orderByDateAddedDesc_mset: "mset (orderByDateAddedDesc rows) = mset rows"
  by (simp add: orderByDateAddedDesc_def)

text \<open>
  Claim C2. For every table, owner, filter and positive \<open>page\<close> and \<open>pageSize\<close>,
  \<open>getPapers\<close> succeeds; \<open>pagination.total\<close> is the number of rows that satisfy the scoped
  predicate, and \<open>items\<close> are the selected fields of the rows from position
  \<open>(page - 1) * pageSize\<close> on, at most \<open>pageSize\<close> of them, of the list of all rows that
  satisfy the same predicate, ordered by \<open>dateAdded\<close> descending. That ordered list is a
  rearrangement of the matching rows in which no row is followed by a later-added one.
\<close>

theorem getPapers_total_and_page:
  assumes "1 \<le> pageN" and "1 \<le> sizeN"
  shows "getPapers tz now ownerId filters
           \<lparr>inPage = Some (Num pageN), inPageSize = Some (Num sizeN)\<rparr> db
         = Inr \<lparr>items =
                  map PaperItem.truncate
                    (take (nat sizeN)
                       (drop (nat ((pageN - 1) * sizeN))
                          (orderByDateAddedDesc
                             (filter (specScopedPredicate ownerId (filterSpecOf tz now filters)) db)))),
                pagination =
                  \<lparr>page = Num pageN, pageSize = Num sizeN,
                   total =
                     length (filter (specScopedPredicate ownerId (filterSpecOf tz now filters)) db)\<rparr>\<rparr>
         \<and> mset (orderByDateAddedDesc
                    (filter (specScopedPredicate ownerId (filterSpecOf tz now filters)) db))
             = mset (filter (specScopedPredicate ownerId (filterSpecOf tz now filters)) db)
         \<and> sorted_wrt (\<lambda>a b. dateAdded b \<le> dateAdded a)
             (orderByDateAddedDesc
                (filter (specScopedPredicate ownerId (filterSpecOf tz now filters)) db))"
proof -
  have skip: "0 \<le> (pageN - 1) * sizeN"
    using assms by simp
  have size: "0 \<le> sizeN"
    using assms by simp
  have "getPapers tz now ownerId filters
           \<lparr>inPage = Some (Num pageN), inPageSize = Some (Num sizeN)\<rparr> db
         = Inr \<lparr>items =
                  map PaperItem.truncate
                    (take (nat sizeN)
                       (drop (nat ((pageN - 1) * sizeN))
                          (orderByDateAddedDesc
                             (filter (specScopedPredicate ownerId (filterSpecOf tz now filters)) db)))),
                pagination =
                  \<lparr>page = Num pageN, pageSize = Num sizeN,
                   total =
                     length (filter (specScopedPredicate ownerId (filterSpecOf tz now filters)) db)\<rparr>\<rparr>"
    using skip size
    by (simp add: getPapers_def Let_def findManyPage_def findManyWhere_def countWhere_def
        filter_scopedPredicate)
  then show ?thesis
    by (simp only: orderByDateAddedDesc_mset orderByDateAddedDesc_sorted simp_thms)
qed

theorem getPapers_total_and_page_witness:
  "(1 :: int) \<le> 2 \<and> (1 :: int) \<le> 2
   \<and> getPapers utcZone 0 ''k1'' noFilters \<lparr>inPage = Some (Num 2), inPageSize = Some (Num 2)\<rparr> exampleDb
       = Inr \<lparr>items = [PaperItem.truncate paperA],
              pagination = \<lparr>page = Num 2, pageSize = Num 2, total = 3\<rparr>\<rparr>"
  using getPapers_total_and_page [of 2 2 utcZone 0 "''k1''" noFilters exampleDb]
  by (simp add: specScopedPredicate_def filterSpecOf_def noFilters_def inclusionSet_def memberOf_def
      orderByDateAddedDesc_def exampleDb_def paperA_def paperB_def paperC_def paperD_def
      paperE_def)

section \<open>Properties of the time window\<close>







lemma WeekDay_range: "0 \<le> WeekDay t \<and> WeekDay t \<le> 6"
  by (simp add: WeekDay_def)









lemma DayFromYear_cycle:
  assumes "0 \<le> b" "b \<le> 3" "0 \<le> c" "c \<le> 24" "0 \<le> e" "e \<le> 3"
  shows "DayFromYear (2001 + 400 * a + 100 * b + 4 * c + e)
           = 11323 + 146097 * a + 36524 * b + 1461 * c + 365 * e"
proof -
  have d4: "(2001 + 400 * a + 100 * b + 4 * c + e - 1969) div 4 = 8 + 100 * a + 25 * b + c"
    by (rule int_div_pos_eq [where r = e]) (use assms in simp_all)
  have d100: "(2001 + 400 * a + 100 * b + 4 * c + e - 1901) div 100 = 1 + 4 * a + b"
    by (rule int_div_pos_eq [where r = "4 * c + e"]) (use assms in simp_all)
  have d400: "(2001 + 400 * a + 100 * b + 4 * c + e - 1601) div 400 = 1 + a"
    by (rule int_div_pos_eq [where r = "100 * b + 4 * c + e"]) (use assms in simp_all)
  show ?thesis
    unfolding DayFromYear_def d4 d100 d400 by simp
qed

text \<open>\<open>YearFromDay d\<close> is the year that ECMAScript defines: the largest \<open>y\<close> whose first day
  is not after \<open>d\<close>.\<close>

lemma YearFromDay_bounds:
  "DayFromYear (YearFromDay d) \<le> d \<and> d < DayFromYear (YearFromDay d + 1)"
proof -
  define n where "n = d - 11323"
  define a where "a = n div 146097"
  define r where "r = n mod 146097"
  define b where "b = min (r div 36524) 3"
  define r1 where "r1 = r - b * 36524"
  define c where "c = r1 div 1461"
  define r2 where "r2 = r1 mod 1461"
  define e where "e = min (r2 div 365) 3"
  have y: "YearFromDay d = 2001 + 400 * a + 100 * b + 4 * c + e"
    by (simp add: YearFromDay_def Let_def DayFromYear_def n_def a_def r_def b_def r1_def c_def
        r2_def e_def)
  have n: "d = 11323 + 146097 * a + r"
    by (simp add: n_def a_def r_def)
  have r: "0 \<le> r \<and> r < 146097"
    by (simp add: r_def)
  have rq: "r = 36524 * (r div 36524) + r mod 36524 \<and> 0 \<le> r mod 36524 \<and> r mod 36524 < 36524"
    by simp
  have b: "0 \<le> b \<and> b \<le> 3"
    using r by (simp add: b_def pos_imp_zdiv_nonneg_iff)
  have r1: "0 \<le> r1 \<and> r1 < 36525 \<and> (b < 3 \<longrightarrow> r1 < 36524)"
    using r rq unfolding r1_def b_def by (cases "r div 36524 \<le> 3") (simp_all, linarith+)
  have r1q: "r1 = 1461 * c + r2 \<and> 0 \<le> r2 \<and> r2 < 1461"
    by (simp add: c_def r2_def)
  have c: "0 \<le> c \<and> c \<le> 24"
    using r1 r1q by linarith
  have r2q: "r2 = 365 * (r2 div 365) + r2 mod 365 \<and> 0 \<le> r2 mod 365 \<and> r2 mod 365 < 365"
    by simp
  have e: "0 \<le> e \<and> e \<le> 3"
    using r1q by (simp add: e_def pos_imp_zdiv_nonneg_iff)
  have e2: "365 * e \<le> r2 \<and> (e < 3 \<longrightarrow> r2 < 365 * e + 365)"
    using r1q r2q unfolding e_def by (cases "r2 div 365 \<le> 3") (simp_all, linarith+)
  have d: "d = 11323 + 146097 * a + 36524 * b + 1461 * c + r2"
    using n r1q by (simp add: r1_def)
  have lower: "DayFromYear (YearFromDay d) \<le> d"
    unfolding y using DayFromYear_cycle [of b c e a] b c e e2 d by simp
  have upper: "d < DayFromYear (YearFromDay d + 1)"
  proof (cases "e < 3")
    case True
    have "YearFromDay d + 1 = 2001 + 400 * a + 100 * b + 4 * c + (e + 1)"
      by (simp add: y)
    then show ?thesis
      using DayFromYear_cycle [of b c "e + 1" a] b c e e2 d True by simp
  next
    case e3: False
    then have e3': "e = 3" using e by simp
    show ?thesis
    proof (cases "c < 24")
      case True
      have "YearFromDay d + 1 = 2001 + 400 * a + 100 * b + 4 * (c + 1) + 0"
        by (simp add: y e3')
      then show ?thesis
        using DayFromYear_cycle [of b "c + 1" 0 a] b c r1q d True by simp
    next
      case c24: False
      then have c24': "c = 24" using c by simp
      show ?thesis
      proof (cases "b < 3")
        case True
        have "YearFromDay d + 1 = 2001 + 400 * a + 100 * (b + 1) + 4 * 0 + 0"
          by (simp add: y e3' c24')
        then show ?thesis
          using DayFromYear_cycle [of "b + 1" 0 0 a] b r1 r1q d True c24' by simp
      next
        case False
        then have b3: "b = 3" using b by simp
        have "YearFromDay d + 1 = 2001 + 400 * (a + 1) + 100 * 0 + 4 * 0 + 0"
          by (simp add: y e3' c24' b3)
        then show ?thesis
          using DayFromYear_cycle [of 0 0 0 "a + 1"] r1 r1q d c24' b3 by simp
      qed
    qed
  qed
  show ?thesis
    using lower upper by simp
qed

section \<open>Properties of the paper lifecycle\<close>

lemma find_None_iff_all: "find P xs = None \<longleftrightarrow> (\<forall>x \<in> set xs. \<not> P x)"
  by (induction xs) auto

lemma find_SomeD: "find P xs = Some x \<Longrightarrow> x \<in> set xs \<and> P x"
  by (induction xs) (auto split: if_splits)

lemma createPaper_duplicate_iff:
  "createPaper newId now ownerId d db = Inl DUPLICATE_PAPER
     \<longleftrightarrow> (\<exists>p \<in> set db. userKeyId p = ownerId \<and> title p = newTitle d
                          \<and> firstAuthor p = newFirstAuthor d)"
proof (cases "find (\<lambda>p. title p = newTitle d \<and> firstAuthor p = newFirstAuthor d
                           \<and> userKeyId p = ownerId) db")
  case None
  then have "\<forall>p \<in> set db. \<not> (title p = newTitle d \<and> firstAuthor p = newFirstAuthor d
                           \<and> userKeyId p = ownerId)"
    by (simp only: find_None_iff_all)
  then have "\<not> (\<exists>p \<in> set db. userKeyId p = ownerId \<and> title p = newTitle d
                          \<and> firstAuthor p = newFirstAuthor d)"
    by blast
  then show ?thesis
    using None by (simp add: createPaper_def Let_def)
next
  case (Some q)
  have "q \<in> set db \<and> (title q = newTitle d \<and> firstAuthor q = newFirstAuthor d
                           \<and> userKeyId q = ownerId)"
    using find_SomeD [OF Some] .
  then have "\<exists>p \<in> set db. userKeyId p = ownerId \<and> title p = newTitle d
                          \<and> firstAuthor p = newFirstAuthor d"
    by blast
  then show ?thesis
    using Some by (simp add: createPaper_def Let_def)
qed

lemma createPaper_success:
  assumes "\<not> (\<exists>p \<in> set db. userKeyId p = ownerId \<and> title p = newTitle d
                          \<and> firstAuthor p = newFirstAuthor d)"
    and "newId \<notin> paperId ` set db"
  shows "createPaper newId now ownerId d db =
     Inr (newId,
          db @ [\<lparr>paperId = newId, title = newTitle d, firstAuthor = newFirstAuthor d,
                 researchDomain = newResearchDomain d, readingStage = newReadingStage d,
                 citationCount = newCitationCount d, impactScore = newImpactScore d,
                 dateAdded = now, isArchived = False, userKeyId = ownerId\<rparr>])"
proof -
  have "find (\<lambda>p. title p = newTitle d \<and> firstAuthor p = newFirstAuthor d
                   \<and> userKeyId p = ownerId) db = None"
    using assms(1) by (auto simp: find_None_iff_all)
  then show ?thesis
    using assms(2) by (simp add: createPaper_def Let_def)
qed

lemma archive_keeps_key:
  "(\<exists>p \<in> set (updateRow pid (\<lambda>p. p\<lparr>isArchived := True\<rparr>) db).
       userKeyId p = ownerId \<and> title p = t \<and> firstAuthor p = a)
   \<longleftrightarrow> (\<exists>p \<in> set db. userKeyId p = ownerId \<and> title p = t \<and> firstAuthor p = a)"
  by (induction db) (auto simp: updateRow_def)

text \<open>
  Claim C9. \<open>createPaper\<close> fails with \<open>DUPLICATE_PAPER\<close> exactly when the table holds a row
  of the same owner with the same title and first author; whether that row is archived plays
  no part, and archiving a row changes nothing in this. A row with the same title and first
  author under another owner does not count. When there is no such row (and the key that
  the store generates is not yet in the table), the call returns that key and appends one
  row with the given fields, \<open>dateAdded = now\<close> and \<open>isArchived = false\<close>.
\<close>

theorem createPaper_duplicate_per_owner:
  "(createPaper newId now ownerId d db = Inl DUPLICATE_PAPER
      \<longleftrightarrow> (\<exists>p \<in> set db. userKeyId p = ownerId \<and> title p = newTitle d
                           \<and> firstAuthor p = newFirstAuthor d))
   \<and> (createPaper newId now ownerId d (updateRow pid (\<lambda>p. p\<lparr>isArchived := True\<rparr>) db)
         = Inl DUPLICATE_PAPER
      \<longleftrightarrow> createPaper newId now ownerId d db = Inl DUPLICATE_PAPER)
   \<and> (\<not> (\<exists>p \<in> set db. userKeyId p = ownerId \<and> title p = newTitle d
                           \<and> firstAuthor p = newFirstAuthor d)
        \<and> newId \<notin> paperId ` set db
      \<longrightarrow> createPaper newId now ownerId d db =
            Inr (newId,
                 db @ [\<lparr>paperId = newId, title = newTitle d, firstAuthor = newFirstAuthor d,
                        researchDomain = newResearchDomain d, readingStage = newReadingStage d,
                        citationCount = newCitationCount d, impactScore = newImpactScore d,
                        dateAdded = now, isArchived = False, userKeyId = ownerId\<rparr>]))"
  using createPaper_success [of db ownerId d newId now]
  by (simp only: createPaper_duplicate_iff archive_keeps_key) blast

theorem createPaper_duplicate_per_owner_witness:
  "createPaper ''n1'' 9000 ''k1''
      \<lparr>newTitle = ''Delta'', newFirstAuthor = ''Di'', newResearchDomain = BIOLOGY,
       newReadingStage = ABSTRACT_READ, newCitationCount = 0, newImpactScore = UNKNOWN\<rparr>
      exampleDb = Inl DUPLICATE_PAPER
   \<and> isArchived paperD \<and> paperD \<in> set exampleDb
   \<and> ''n1'' \<notin> paperId ` set exampleDb
   \<and> createPaper ''n1'' 9000 ''k2''
      \<lparr>newTitle = ''Delta'', newFirstAuthor = ''Di'', newResearchDomain = BIOLOGY,
       newReadingStage = ABSTRACT_READ, newCitationCount = 0, newImpactScore = UNKNOWN\<rparr>
      exampleDb
     = Inr (''n1'',
            exampleDb @ [\<lparr>paperId = ''n1'', title = ''Delta'', firstAuthor = ''Di'',
               researchDomain = BIOLOGY, readingStage = ABSTRACT_READ, citationCount = 0,
               impactScore = UNKNOWN, dateAdded = 9000, isArchived = False,
               userKeyId = ''k2''\<rparr>])"
  using createPaper_duplicate_per_owner [of "''n1''" 9000 "''k1''"
      "\<lparr>newTitle = ''Delta'', newFirstAuthor = ''Di'', newResearchDomain = BIOLOGY,
        newReadingStage = ABSTRACT_READ, newCitationCount = 0, newImpactScore = UNKNOWN\<rparr>"
      exampleDb "''d''"]
    createPaper_duplicate_per_owner [of "''n1''" 9000 "''k2''"
      "\<lparr>newTitle = ''Delta'', newFirstAuthor = ''Di'', newResearchDomain = BIOLOGY,
        newReadingStage = ABSTRACT_READ, newCitationCount = 0, newImpactScore = UNKNOWN\<rparr>"
      exampleDb "''d''"]
  by (simp add: exampleDb_def paperA_def paperB_def paperC_def paperD_def paperE_def)

lemma findUnique_foreign:
  "\<forall>p \<in> set db. paperId p = pid \<longrightarrow> userKeyId p \<noteq> ownerId \<Longrightarrow>
   findUnique pid db = None \<or> (\<exists>q. findUnique pid db = Some q \<and> userKeyId q \<noteq> ownerId)"
proof (cases "findUnique pid db")
  case None
  then show ?thesis by simp
next
  case (Some q)
  assume a: "\<forall>p \<in> set db. paperId p = pid \<longrightarrow> userKeyId p \<noteq> ownerId"
  have "q \<in> set db \<and> paperId q = pid"
    using find_SomeD [of "\<lambda>p. paperId p = pid" db q] Some by (simp add: findUnique_def)
  then have "userKeyId q \<noteq> ownerId"
    using a by blast
  then show ?thesis
    using Some by simp
qed

text \<open>
  Claim C10. When no row with the given key belongs to the caller, that is when there is no
  row with that key at all or when the row with that key belongs to another owner,
  \<open>updatePaper\<close> and \<open>archivePaper\<close> both fail with \<open>NOT_FOUND\<close>, and the two handlers
  answer with the same 404 response and leave the table as it is. The answer is the same
  value in both cases, so it does not tell them apart.
\<close>

theorem foreign_or_missing_is_not_found:
  assumes "\<forall>p \<in> set db. paperId p = pid \<longrightarrow> userKeyId p \<noteq> ownerId"
  shows "updatePaper pid ownerId d db = Inl NOT_FOUND
         \<and> archivePaper pid ownerId db = Inl NOT_FOUND
         \<and> updatePaperHandler ownerId pid d db
             = (\<lparr>statusCode = 404, code = ''NOT_FOUND'', message = ''Resource not found''\<rparr>, db)
         \<and> archivePaperHandler ownerId pid db
             = (\<lparr>statusCode = 404, code = ''NOT_FOUND'', message = ''Resource not found''\<rparr>, db)"
proof -
  have u: "updatePaper pid ownerId d db = Inl NOT_FOUND"
    using findUnique_foreign [OF assms] by (auto simp: updatePaper_def)
  have a: "archivePaper pid ownerId db = Inl NOT_FOUND"
    using findUnique_foreign [OF assms] by (auto simp: archivePaper_def)
  show ?thesis
    by (simp add: u a updatePaperHandler_def archivePaperHandler_def notFoundResponse_def)
qed

theorem foreign_or_missing_is_not_found_witness:
  "paperE \<in> set exampleDb \<and> paperId paperE = ''e'' \<and> userKeyId paperE = ''k2''
   \<and> ''zz'' \<notin> paperId ` set exampleDb
   \<and> updatePaper ''e'' ''k1'' exampleUpdate exampleDb = Inl NOT_FOUND
   \<and> updatePaper ''zz'' ''k1'' exampleUpdate exampleDb = Inl NOT_FOUND
   \<and> archivePaper ''e'' ''k1'' exampleDb = Inl NOT_FOUND
   \<and> archivePaper ''zz'' ''k1'' exampleDb = Inl NOT_FOUND
   \<and> archivePaperHandler ''k1'' ''e'' exampleDb = archivePaperHandler ''k1'' ''zz'' exampleDb
   \<and> updatePaperHandler ''k1'' ''e'' exampleUpdate exampleDb
       = updatePaperHandler ''k1'' ''zz'' exampleUpdate exampleDb"
proof -
  have e: "\<forall>p \<in> set exampleDb. paperId p = ''e'' \<longrightarrow> userKeyId p \<noteq> ''k1''"
    by (simp add: exampleDb_def paperA_def paperB_def paperC_def paperD_def paperE_def)
  have z: "\<forall>p \<in> set exampleDb. paperId p = ''zz'' \<longrightarrow> userKeyId p \<noteq> ''k1''"
    by (simp add: exampleDb_def paperA_def paperB_def paperC_def paperD_def paperE_def)
  have m: "paperE \<in> set exampleDb \<and> paperId paperE = ''e'' \<and> userKeyId paperE = ''k2''
      \<and> ''zz'' \<notin> paperId ` set exampleDb"
    by (simp add: exampleDb_def paperA_def paperB_def paperC_def paperD_def paperE_def)
  show ?thesis
    using foreign_or_missing_is_not_found [OF e, of exampleUpdate]
      foreign_or_missing_is_not_found [OF z, of exampleUpdate] m
    by simp
qed

section \<open>Properties of the request parsing\<close>

lemma parseListParam_cases:
  "parseListParam None = None"
  "parseListParam (Some (QStr s)) = (if s = [] then None else Some [s])"
  "parseListParam (Some QObj) = Some []"
  "parseListParam (Some (QArr vs)) = Some (stringsOf vs)"
  by (simp_all add: parseListParam_def toArray_def)

lemma decodeAll_unknown: "s \<in> set ss \<Longrightarrow> dec s = None \<Longrightarrow> decodeAll dec ss = None"
  by (induction ss) (auto split: option.splits)

lemma decodeFilters_dateRange:
  "decodeFilters sc (f\<lparr>dateRange := r\<rparr>)
     = map_option (\<lambda>g. g\<lparr>dateRange := r\<rparr>) (decodeFilters sc f)"
  by (simp add: decodeFilters_def split: option.splits)

lemma decodeFilters_none:
  "decodeFilters sc
     \<lparr>readingStages = None, researchDomains = None, impactScores = None, dateRange = r\<rparr>
   = Some \<lparr>readingStages = None, researchDomains = None, impactScores = None, dateRange = r\<rparr>"
  by (simp add: decodeFilters_def decodeField_def)

lemma getPapers_defaults:
  "inPage pg = Some (Num 1) \<or> inPage pg = None \<Longrightarrow>
   inPageSize pg = Some (Num 10) \<or> inPageSize pg = None \<Longrightarrow>
   getPapers tz now ownerId f pg db =
     Inr \<lparr>items = map PaperItem.truncate
                     (take 10 (orderByDateAddedDesc
                        (findManyWhere (getPapersWhere tz now ownerId f) db))),
          pagination = \<lparr>page = Num 1, pageSize = Num 10,
                         total = countWhere (getPapersWhere tz now ownerId f) db\<rparr>\<rparr>"
  by (auto simp: getPapers_def Let_def findManyPage_def)

lemma parsePagination_absent:
  "q_page q = None \<Longrightarrow> inPage (parsePagination q) = Some (Num 1)"
  "q_pageSize q = None \<Longrightarrow> inPageSize (parsePagination q) = Some (Num 10)"
  by (simp_all add: parsePagination_def Let_def firstParam_def parseNumberParam_def)

text \<open>An unknown selector and no selector give the same \<open>where\<close> object.\<close>

lemma getPapersWhere_unknown_dateRange:
  "r \<notin> {''THIS_WEEK'', ''THIS_MONTH'', ''LAST_3_MONTHS''} \<Longrightarrow>
   getPapersWhere tz now ownerId (f\<lparr>dateRange := Some r\<rparr>)
     = getPapersWhere tz now ownerId (f\<lparr>dateRange := None\<rparr>)"
  by (rule PaperWhere.equality)
    (simp_all add: getPapersWhere_fields getDateRangeStart_def)

lemma getPapers_unknown_dateRange:
  "r \<notin> {''THIS_WEEK'', ''THIS_MONTH'', ''LAST_3_MONTHS''} \<Longrightarrow>
   getPapers tz now ownerId (f\<lparr>dateRange := Some r\<rparr>) pg db
     = getPapers tz now ownerId (f\<lparr>dateRange := None\<rparr>) pg db"
proof -
  assume "r \<notin> {''THIS_WEEK'', ''THIS_MONTH'', ''LAST_3_MONTHS''}"
  then have "getPapersWhere tz now ownerId (f\<lparr>dateRange := Some r\<rparr>)
      = getPapersWhere tz now ownerId (f\<lparr>dateRange := None\<rparr>)"
    by (rule getPapersWhere_unknown_dateRange)
  then show ?thesis
    unfolding getPapers_def by (simp only:)
qed

text \<open>
  Claim C7 fails on the code for a string that spells no member of the enumeration. Such a
  value of \<open>readingStages\<close> is not dropped: it stays in the filter list and in the
  inclusion list of the \<open>where\<close> object, the store rejects the query, and both the
  listing and the analytics request end in the 500 response of the error handler. The
  neighbouring paths do what the claim says: an unknown \<open>dateRange\<close> is answered like no
  \<open>dateRange\<close>, with status 200, and an entry of \<open>readingStages\<close> that is not a string
  is dropped and the request answered like one without the parameter.
\<close>

theorem unknown_stage_fails_request:
  assumes "stageOfString sc v = None" and "v \<noteq> []"
  shows "readingStages (parseFilters (emptyQuery\<lparr>q_readingStages := Some (QStr v)\<rparr>)) = Some [v]
     \<and> where_readingStage_in
         (getPapersWhere tz now ownerId
            (parseFilters (emptyQuery\<lparr>q_readingStages := Some (QStr v)\<rparr>))) = Some [v]
     \<and> where_readingStage_in
         (buildWhereClause tz now ownerId
            (parseFilters (emptyQuery\<lparr>q_readingStages := Some (QStr v)\<rparr>))) = Some [v]
     \<and> getPapersHandler sc tz now ownerId (emptyQuery\<lparr>q_readingStages := Some (QStr v)\<rparr>) db
         = \<lparr>statusCode = 500, code = ''INTERNAL_ERROR'',
            message = ''Unexpected server error'', payload = None\<rparr>
     \<and> getAnalyticsHandler sc tz now ownerId (emptyQuery\<lparr>q_readingStages := Some (QStr v)\<rparr>) db
         = \<lparr>statusCode = 500, code = ''INTERNAL_ERROR'',
            message = ''Unexpected server error'', payload = None\<rparr>
     \<and> statusCode (getPapersHandler sc tz now ownerId emptyQuery db) = 200
     \<and> statusCode (getAnalyticsHandler sc tz now ownerId emptyQuery db) = 200
     \<and> getPapersHandler sc tz now ownerId (emptyQuery\<lparr>q_dateRange := Some (QStr ''Bogus'')\<rparr>) db
         = getPapersHandler sc tz now ownerId emptyQuery db
     \<and> getPapersHandler sc tz now ownerId (emptyQuery\<lparr>q_readingStages := Some (QArr [QObj])\<rparr>) db
         = getPapersHandler sc tz now ownerId emptyQuery db"
proof -
  let ?q = "emptyQuery\<lparr>q_readingStages := Some (QStr v)\<rparr>"
  have pf: "parseFilters ?q
      = \<lparr>readingStages = Some [v], researchDomains = None, impactScores = None,
         dateRange = None\<rparr>"
    using assms(2) by (simp add: parseFilters_def emptyQuery_def parseListParam_cases parseDateRange_def)
  have dec: "decodeFilters sc (parseFilters ?q) = None"
    using assms(1) by (simp add: pf decodeFilters_def decodeField_def)
  have w: "where_readingStage_in (getPapersWhere tz now ownerId (parseFilters ?q)) = Some [v]"
    by (simp add: pf getPapersWhere_fields)
  have l: "getPapersHandler sc tz now ownerId ?q db
         = \<lparr>statusCode = 500, code = ''INTERNAL_ERROR'',
            message = ''Unexpected server error'', payload = None\<rparr>"
    by (simp add: getPapersHandler_def Let_def getPapersCall_def dec)
  have a: "getAnalyticsHandler sc tz now ownerId ?q db
         = \<lparr>statusCode = 500, code = ''INTERNAL_ERROR'',
            message = ''Unexpected server error'', payload = None\<rparr>"
    by (simp add: getAnalyticsHandler_def Let_def getAnalyticsCall_def dec)
  have pe: "parseFilters emptyQuery
      = \<lparr>readingStages = None, researchDomains = None, impactScores = None, dateRange = None\<rparr>"
    by (simp add: parseFilters_def emptyQuery_def parseListParam_cases parseDateRange_def)
  have pg: "inPage (parsePagination emptyQuery) = Some (Num 1)
      \<and> inPageSize (parsePagination emptyQuery) = Some (Num 10)"
    by (simp add: parsePagination_absent emptyQuery_def)
  have ok: "statusCode (getPapersHandler sc tz now ownerId emptyQuery db) = 200"
    using pg
    by (simp add: getPapersHandler_def Let_def getPapersCall_def pe decodeFilters_none
        getPapers_defaults)
  have oka: "statusCode (getAnalyticsHandler sc tz now ownerId emptyQuery db) = 200"
    by (simp add: getAnalyticsHandler_def Let_def getAnalyticsCall_def pe decodeFilters_none)
  have pd: "parseFilters (emptyQuery\<lparr>q_dateRange := Some (QStr ''Bogus'')\<rparr>)
      = (parseFilters emptyQuery)\<lparr>dateRange := Some ''Bogus''\<rparr>"
    by (simp add: parseFilters_def emptyQuery_def parseDateRange_def)
  have pp: "parsePagination (emptyQuery\<lparr>q_dateRange := Some (QStr ''Bogus'')\<rparr>)
      = parsePagination emptyQuery"
    by (simp add: parsePagination_def emptyQuery_def)
  have sib: "getPapersHandler sc tz now ownerId (emptyQuery\<lparr>q_dateRange := Some (QStr ''Bogus'')\<rparr>) db
         = getPapersHandler sc tz now ownerId emptyQuery db"
    using getPapers_unknown_dateRange
        [of "''Bogus''" tz now ownerId
          "\<lparr>readingStages = None, researchDomains = None, impactScores = None, dateRange = None\<rparr>"
          "parsePagination emptyQuery" db]
    by (simp add: getPapersHandler_def Let_def getPapersCall_def pd pp pe decodeFilters_none)
  have po: "parseFilters (emptyQuery\<lparr>q_readingStages := Some (QArr [QObj])\<rparr>)
      = (parseFilters emptyQuery)\<lparr>readingStages := Some []\<rparr>"
    by (simp add: parseFilters_def emptyQuery_def parseListParam_cases)
  have ppo: "parsePagination (emptyQuery\<lparr>q_readingStages := Some (QArr [QObj])\<rparr>)
      = parsePagination emptyQuery"
    by (simp add: parsePagination_def emptyQuery_def)
  have we: "getPapersWhere tz now ownerId
        \<lparr>readingStages = Some [], researchDomains = None, impactScores = None, dateRange = None\<rparr>
      = getPapersWhere tz now ownerId
        (\<lparr>readingStages = None, researchDomains = None, impactScores = None, dateRange = None\<rparr>
          :: (ReadingStage, ResearchDomain, ImpactScore) PaperFilters)"
    by (rule PaperWhere.equality) (simp_all add: getPapersWhere_fields)
  have dropped: "getPapersHandler sc tz now ownerId (emptyQuery\<lparr>q_readingStages := Some (QArr [QObj])\<rparr>) db
         = getPapersHandler sc tz now ownerId emptyQuery db"
    by (simp add: getPapersHandler_def Let_def getPapersCall_def po ppo pe decodeFilters_none
        decodeFilters_def decodeField_def getPapers_def we)
  show ?thesis
    using pf w l a ok oka sib dropped
    by (simp add: buildWhereClause_getPapersWhere)
qed

theorem unknown_stage_fails_request_witness:
  "stageOfString keySchema ''Bogus'' = None
   \<and> getPapersHandler keySchema utcZone 0 ''k1''
        (emptyQuery\<lparr>q_readingStages := Some (QStr ''Bogus'')\<rparr>) exampleDb
       = \<lparr>statusCode = 500, code = ''INTERNAL_ERROR'',
          message = ''Unexpected server error'', payload = None\<rparr>
   \<and> getAnalyticsHandler keySchema utcZone 0 ''k1''
        (emptyQuery\<lparr>q_readingStages := Some (QStr ''Bogus'')\<rparr>) exampleDb
       = \<lparr>statusCode = 500, code = ''INTERNAL_ERROR'',
          message = ''Unexpected server error'', payload = None\<rparr>
   \<and> statusCode (getPapersHandler keySchema utcZone 0 ''k1''
        (emptyQuery\<lparr>q_dateRange := Some (QStr ''Bogus'')\<rparr>) exampleDb) = 200"
proof -
  have u: "stageOfString keySchema ''Bogus'' = None"
    by (simp add: keySchema_def)
  have n: "''Bogus'' \<noteq> []"
    by simp
  show ?thesis
    using unknown_stage_fails_request [OF u n, of utcZone 0 "''k1''" exampleDb] u
    by simp
qed




















end
